theory Spec2Isabelle
  imports Complex_Main "HOL-Library.Multiset"
begin

text \<open>
  A model of the deformation and rendering pipeline of DialecticSphere: the deformation
  modes and the \<open>ShapeDeformer\<close> that sums them over a sphere (shapeDeformer.js), and the
  \<open>Renderer\<close> that rotates, projects, lights, culls and sorts the triangles of the mesh
  (renderer.js). Each function of the source is one definition with the source's name;
  a loop is a recursive function over its counter, named after the function it belongs
  to.
\<close>

section \<open>Numbers\<close>

text \<open>
  Every numeric value of the program is a JavaScript Number. The model keeps the three
  kinds of value that decide the behaviour of the code: a finite value, the two
  infinities and NaN. A finite value is a real number: rounding, overflow of finite
  arithmetic and the sign of zero are not modelled, and \<open>Math.PI\<close> is \<open>pi\<close>.
  What is modelled is the arithmetic of the special values: a division by zero does
  not raise, it gives an infinity (NaN for \<open>0 / 0\<close>), NaN propagates through every
  operation, and every comparison with NaN is false.

  The model therefore computes exactly where the program rounds. In double arithmetic
  \<open>Math.sin(Math.PI)\<close> is \<open>1.2246467991473532e-16\<close> and not 0, a vector divided by its
  length is a unit vector only up to its last digits, and the two sides of an identity
  of real arithmetic may differ in theirs. Where a statement needs a value the program
  computes in double arithmetic, the value is written as the fraction the double is.
\<close>

datatype number = Fin real | PInf | NInf | NaN

instantiation number :: "{plus, uminus, minus, times, inverse, ord}"
begin

fun plus_number :: "number \<Rightarrow> number \<Rightarrow> number" where
  "plus_number (Fin a) (Fin b) = Fin (a + b)"
| "plus_number NaN _ = NaN"
| "plus_number _ NaN = NaN"
| "plus_number PInf NInf = NaN"
| "plus_number NInf PInf = NaN"
| "plus_number PInf _ = PInf"
| "plus_number _ PInf = PInf"
| "plus_number NInf _ = NInf"
| "plus_number _ NInf = NInf"

fun uminus_number :: "number \<Rightarrow> number" where
  "uminus_number (Fin a) = Fin (- a)"
| "uminus_number PInf = NInf"
| "uminus_number NInf = PInf"
| "uminus_number NaN = NaN"

definition minus_number :: "number \<Rightarrow> number \<Rightarrow> number" where
  "minus_number a b = a + (- b)"

fun times_number :: "number \<Rightarrow> number \<Rightarrow> number" where
  "times_number (Fin a) (Fin b) = Fin (a * b)"
| "times_number NaN _ = NaN"
| "times_number _ NaN = NaN"
| "times_number PInf (Fin b) = (if b = 0 then NaN else if 0 < b then PInf else NInf)"
| "times_number NInf (Fin b) = (if b = 0 then NaN else if 0 < b then NInf else PInf)"
| "times_number (Fin a) PInf = (if a = 0 then NaN else if 0 < a then PInf else NInf)"
| "times_number (Fin a) NInf = (if a = 0 then NaN else if 0 < a then NInf else PInf)"
| "times_number PInf PInf = PInf"
| "times_number NInf NInf = PInf"
| "times_number PInf NInf = NInf"
| "times_number NInf PInf = NInf"

fun divide_number :: "number \<Rightarrow> number \<Rightarrow> number" where
  "divide_number (Fin a) (Fin b) =
     (if b \<noteq> 0 then Fin (a / b)
      else if a = 0 then NaN else if 0 < a then PInf else NInf)"
| "divide_number NaN _ = NaN"
| "divide_number _ NaN = NaN"
| "divide_number (Fin a) PInf = Fin 0"
| "divide_number (Fin a) NInf = Fin 0"
| "divide_number PInf (Fin b) = (if 0 \<le> b then PInf else NInf)"
| "divide_number NInf (Fin b) = (if 0 \<le> b then NInf else PInf)"
| "divide_number _ _ = NaN"

definition inverse_number :: "number \<Rightarrow> number" where
  "inverse_number a = divide (Fin 1) a"

fun less_number :: "number \<Rightarrow> number \<Rightarrow> bool" where
  "less_number (Fin a) (Fin b) = (a < b)"
| "less_number NaN _ = False"
| "less_number _ NaN = False"
| "less_number NInf NInf = False"
| "less_number NInf _ = True"
| "less_number PInf _ = False"
| "less_number (Fin a) PInf = True"
| "less_number (Fin a) NInf = False"

definition less_eq_number :: "number \<Rightarrow> number \<Rightarrow> bool" where
  "less_eq_number a b = (a < b \<or> (a = b \<and> a \<noteq> NaN))"

instance ..

end

definition Math_PI :: number where
  "Math_PI = Fin pi"

fun Math_sin :: "number \<Rightarrow> number" where
  "Math_sin (Fin a) = Fin (sin a)"
| "Math_sin _ = NaN"

fun Math_cos :: "number \<Rightarrow> number" where
  "Math_cos (Fin a) = Fin (cos a)"
| "Math_cos _ = NaN"

fun Math_sqrt :: "number \<Rightarrow> number" where
  "Math_sqrt (Fin a) = (if a < 0 then NaN else Fin (sqrt a))"
| "Math_sqrt PInf = PInf"
| "Math_sqrt _ = NaN"

fun Math_floor :: "number \<Rightarrow> number" where
  "Math_floor (Fin a) = Fin (of_int \<lfloor>a\<rfloor>)"
| "Math_floor v = v"

fun Math_max :: "number \<Rightarrow> number \<Rightarrow> number" where
  "Math_max NaN _ = NaN"
| "Math_max _ NaN = NaN"
| "Math_max a b = (if a < b then b else a)"

text \<open>The source's \<open>v ** 2\<close>.\<close>

definition pow2 :: "number \<Rightarrow> number" where
  "pow2 v = v * v"

fun isFin :: "number \<Rightarrow> bool" where
  "isFin (Fin a) = True"
| "isFin _ = False"

section \<open>Deformation modes and the shape deformer\<close>

text \<open>
  A point is the object \<open>{x, y, z}\<close> of the source; the fields carry a prefix because a
  record field is a constant of the theory.
\<close>

record point =
  px :: number
  py :: number
  pz :: number

text \<open>
  The class hierarchy under \<open>DeformationMode\<close> is a tag with the fields each subclass
  adds: \<open>thetaFreq\<close> and \<open>phiFreq\<close> for the two harmonic classes, \<open>scale\<close> for the noise.
\<close>

datatype mode_class =
    DeformationMode
  | HarmonicMode number number
  | CosineHarmonicMode number number
  | MixedHarmonicMode
  | NoiseDeformation number

record mode =
  name :: string
  description :: string
  defaultAmplitude :: number
  amplitude :: number
  cls :: mode_class

definition noise3D :: "number \<Rightarrow> number \<Rightarrow> number \<Rightarrow> number \<Rightarrow> number" where
  "noise3D scale x y z =
     Math_sin (x * Fin (1/10) * scale) * Math_cos (y * Fin (1/10) * scale)
       * Math_sin (z * Fin (1/10) * scale)"

text \<open>
  \<open>applyDeformation(theta, phi, basePoint)\<close>, dispatched on the class. A call may leave
  \<open>basePoint\<close> out, which only the noise class looks at.
\<close>

definition applyDeformation :: "mode \<Rightarrow> number \<Rightarrow> number \<Rightarrow> point option \<Rightarrow> number" where
  "applyDeformation m theta phi basePoint =
     (case cls m of
        DeformationMode \<Rightarrow> Fin 0
      | HarmonicMode thetaFreq phiFreq \<Rightarrow>
          amplitude m * Math_sin (thetaFreq * theta) * Math_sin (phiFreq * phi)
      | CosineHarmonicMode thetaFreq phiFreq \<Rightarrow>
          amplitude m * Math_cos (thetaFreq * theta) * Math_sin (phiFreq * phi)
      | MixedHarmonicMode \<Rightarrow>
          amplitude m * Math_sin (theta + Fin 3 * phi) * Math_cos (Fin 2 * theta)
      | NoiseDeformation scale \<Rightarrow>
          (case basePoint of
             None \<Rightarrow> Fin 0
           | Some p \<Rightarrow>
               amplitude m * noise3D scale (px p * Fin 10) (py p * Fin 10) (pz p * Fin 10)))"

definition reset :: "mode \<Rightarrow> mode" where
  "reset m = m\<lparr>amplitude := defaultAmplitude m\<rparr>"

record ShapeDeformer =
  baseRadius :: number
  modes :: "mode list"

text \<open>
  The constructors as \<open>setupDefaultModes\<close> calls them: without a default amplitude, which
  is then 0, and for the noise without a scale, which is then 1.
\<close>

definition newMode :: "string \<Rightarrow> string \<Rightarrow> mode_class \<Rightarrow> mode" where
  "newMode n d c = \<lparr>name = n, description = d, defaultAmplitude = Fin 0, amplitude = Fin 0, cls = c\<rparr>"

text \<open>\<open>addMode\<close> appends and returns the index of the new mode.\<close>

definition addMode :: "ShapeDeformer \<Rightarrow> mode \<Rightarrow> int \<times> ShapeDeformer" where
  "addMode sd m =
     (let sd' = sd\<lparr>modes := modes sd @ [m]\<rparr> in (int (length (modes sd')) - 1, sd'))"

definition setupDefaultModes :: "ShapeDeformer \<Rightarrow> ShapeDeformer" where
  "setupDefaultModes sd0 =
     (let sd1 = snd (addMode sd0 (newMode ''Mode 1'' ''3 waves around equator, 2 waves pole-to-pole''
                   (HarmonicMode (Fin 3) (Fin 2))));
          sd2 = snd (addMode sd1 (newMode ''Mode 2'' ''5 waves around equator, 3 waves pole-to-pole''
                   (HarmonicMode (Fin 5) (Fin 3))));
          sd3 = snd (addMode sd2 (newMode ''Mode 3'' ''7 waves around equator, 1 wave pole-to-pole''
                   (HarmonicMode (Fin 7) (Fin 1))));
          sd4 = snd (addMode sd3 (newMode ''Pinch'' ''Pinching effect along longitude lines''
                   (CosineHarmonicMode (Fin 4) (Fin 4))));
          sd5 = snd (addMode sd4 (newMode ''Ripple'' ''Radial ripple effect from poles''
                   (HarmonicMode (Fin 0) (Fin 3))));
          sd6 = snd (addMode sd5 (newMode ''Twisted'' ''Twisted torus-like deformation''
                   MixedHarmonicMode));
          sd7 = snd (addMode sd6 (newMode ''Noise'' ''Organic, natural-looking irregularities''
                   (NoiseDeformation (Fin 1))))
      in sd7)"

definition newShapeDeformer :: "number \<Rightarrow> ShapeDeformer" where
  "newShapeDeformer r = setupDefaultModes \<lparr>baseRadius = r, modes = []\<rparr>"

text \<open>
  \<open>removeMode\<close> and \<open>setAmplitude\<close> take the index the interface sends, an integer, and
  return the boolean together with the deformer after the call.
\<close>

definition removeMode :: "ShapeDeformer \<Rightarrow> int \<Rightarrow> bool \<times> ShapeDeformer" where
  "removeMode sd index =
     (if 0 \<le> index \<and> index < int (length (modes sd))
      then (True, sd\<lparr>modes := take (nat index) (modes sd) @ drop (nat index + 1) (modes sd)\<rparr>)
      else (False, sd))"

definition setAmplitude :: "ShapeDeformer \<Rightarrow> int \<Rightarrow> number \<Rightarrow> bool \<times> ShapeDeformer" where
  "setAmplitude sd index v =
     (if 0 \<le> index \<and> index < int (length (modes sd))
      then (True, sd\<lparr>modes := (modes sd)[nat index := (modes sd ! nat index)\<lparr>amplitude := v\<rparr>]\<rparr>)
      else (False, sd))"

record preset =
  preset_name :: string
  amplitudes :: "number list"

text \<open>The loop of \<open>applyPreset\<close>, from its counter \<open>i\<close>.\<close>

function applyPreset_loop :: "mode list \<Rightarrow> number list \<Rightarrow> nat \<Rightarrow> mode list" where
  "applyPreset_loop ms amps i =
     (if i < length ms \<and> i < length amps
      then applyPreset_loop (ms[i := (ms ! i)\<lparr>amplitude := amps ! i\<rparr>]) amps (i + 1)
      else ms)"
  by pat_completeness auto
termination
  by (relation "measure (\<lambda>(ms, amps, i). length ms - i)") auto

declare applyPreset_loop.simps [simp del]

definition applyPreset :: "ShapeDeformer \<Rightarrow> preset \<Rightarrow> ShapeDeformer" where
  "applyPreset sd presetConfig = sd\<lparr>modes := applyPreset_loop (modes sd) (amplitudes presetConfig) 0\<rparr>"

text \<open>\<open>getCurrentPreset(name = "Custom")\<close>: the argument may be left out.\<close>

definition getCurrentPreset :: "ShapeDeformer \<Rightarrow> string option \<Rightarrow> preset" where
  "getCurrentPreset sd nm =
     \<lparr>preset_name = (case nm of None \<Rightarrow> ''Custom'' | Some n \<Rightarrow> n),
      amplitudes = map amplitude (modes sd)\<rparr>"

text \<open>
  \<open>createDeformedSphere(numPointsTheta, numPointsPhi)\<close>. The two resolutions are the
  integer counts the renderer passes. \<open>spherePoint\<close> is the body of the inner loop once
  \<open>theta\<close> is known: the base point, the sum of the modes' deformations in the order of
  the list, and the scaled position.
\<close>

definition spherePoint :: "ShapeDeformer \<Rightarrow> number \<Rightarrow> number \<Rightarrow> point" where
  "spherePoint sd theta phi =
     (let baseX = Math_sin phi * Math_cos theta;
          baseY = Math_sin phi * Math_sin theta;
          baseZ = Math_cos phi;
          basePoint = \<lparr>px = baseX, py = baseY, pz = baseZ\<rparr>;
          totalDeformation =
            foldl (\<lambda>total m. total + applyDeformation m theta phi (Some basePoint)) (Fin 0) (modes sd);
          r = baseRadius sd + totalDeformation
      in \<lparr>px = r * baseX, py = r * baseY, pz = r * baseZ\<rparr>)"

definition thetaAt :: "int \<Rightarrow> int \<Rightarrow> number" where
  "thetaAt numPointsTheta i = Fin (of_int i) * Fin 2 * Math_PI / Fin (of_int numPointsTheta)"

definition phiAt :: "int \<Rightarrow> int \<Rightarrow> number" where
  "phiAt numPointsPhi j = Fin (of_int j) * Math_PI / Fin (of_int numPointsPhi)"

function sphereRow_loop :: "ShapeDeformer \<Rightarrow> int \<Rightarrow> number \<Rightarrow> int \<Rightarrow> point list \<Rightarrow> point list" where
  "sphereRow_loop sd numPointsTheta phi i row =
     (if i \<le> numPointsTheta
      then sphereRow_loop sd numPointsTheta phi (i + 1)
             (row @ [spherePoint sd (thetaAt numPointsTheta i) phi])
      else row)"
  by pat_completeness auto
termination
  by (relation "measure (\<lambda>(sd, numPointsTheta, phi, i, row). nat (numPointsTheta + 1 - i))") auto

declare sphereRow_loop.simps [simp del]

function sphere_loop :: "ShapeDeformer \<Rightarrow> int \<Rightarrow> int \<Rightarrow> int \<Rightarrow> point list list \<Rightarrow> point list list" where
  "sphere_loop sd numPointsTheta numPointsPhi j points =
     (if j \<le> numPointsPhi
      then sphere_loop sd numPointsTheta numPointsPhi (j + 1)
             (points @ [sphereRow_loop sd numPointsTheta (phiAt numPointsPhi j) 0 []])
      else points)"
  by pat_completeness auto
termination
  by (relation "measure (\<lambda>(sd, numPointsTheta, numPointsPhi, j, points). nat (numPointsPhi + 1 - j))") auto

declare sphere_loop.simps [simp del]

definition createDeformedSphere :: "ShapeDeformer \<Rightarrow> int \<Rightarrow> int \<Rightarrow> point list list" where
  "createDeformedSphere sd numPointsTheta numPointsPhi = sphere_loop sd numPointsTheta numPointsPhi 0 []"

section \<open>The renderer\<close>

text \<open>
  Of the canvas the renderer reads the two dimensions; what it paints is the list of
  triangles that \<open>draw\<close> fills, in the order it fills them.
\<close>

record Renderer =
  canvas_width :: number
  canvas_height :: number
  lightDir :: point
  shapeDeformer :: ShapeDeformer

definition normalizeLightDirection :: "Renderer \<Rightarrow> Renderer" where
  "normalizeLightDirection r =
     (let l = lightDir r;
          lightLength = Math_sqrt (pow2 (px l) + pow2 (py l) + pow2 (pz l))
      in r\<lparr>lightDir := \<lparr>px = px l / lightLength, py = py l / lightLength, pz = pz l / lightLength\<rparr>\<rparr>)"

definition setLightDirection :: "Renderer \<Rightarrow> number \<Rightarrow> number \<Rightarrow> number \<Rightarrow> Renderer" where
  "setLightDirection r x y z = normalizeLightDirection (r\<lparr>lightDir := \<lparr>px = x, py = y, pz = z\<rparr>\<rparr>)"

definition rotatePoint :: "point \<Rightarrow> number \<Rightarrow> number \<Rightarrow> point" where
  "rotatePoint p angleX angleY =
     (let radX = angleX / Fin 100 * Math_PI;
          radY = angleY / Fin 100 * Math_PI;
          y1 = py p * Math_cos radX - pz p * Math_sin radX;
          z1 = py p * Math_sin radX + pz p * Math_cos radX;
          x2 = px p * Math_cos radY + z1 * Math_sin radY;
          z2 = (- px p) * Math_sin radY + z1 * Math_cos radY
      in \<lparr>px = x2, py = y1, pz = z2\<rparr>)"

definition projectPoint :: "Renderer \<Rightarrow> point \<Rightarrow> number \<Rightarrow> point" where
  "projectPoint r p depth =
     (let centerX = canvas_width r / Fin 2;
          centerY = canvas_height r / Fin 2;
          depthFactor = depth / Fin 1000;
          scale = Fin 1 + pz p * depthFactor;
          x2d = centerX + px p / scale;
          y2d = centerY + py p / scale
      in \<lparr>px = x2d, py = y2d, pz = pz p\<rparr>)"

definition calculateNormal :: "point \<Rightarrow> point \<Rightarrow> point \<Rightarrow> point" where
  "calculateNormal p1 p2 p3 =
     (let v1 = \<lparr>px = px p2 - px p1, py = py p2 - py p1, pz = pz p2 - pz p1\<rparr>;
          v2 = \<lparr>px = px p3 - px p1, py = py p3 - py p1, pz = pz p3 - pz p1\<rparr>;
          normal = \<lparr>px = py v1 * pz v2 - pz v1 * py v2,
                    py = pz v1 * px v2 - px v1 * pz v2,
                    pz = px v1 * py v2 - py v1 * px v2\<rparr>;
          len = Math_sqrt (pow2 (px normal) + pow2 (py normal) + pow2 (pz normal))
      in \<lparr>px = px normal / len, py = py normal / len, pz = pz normal / len\<rparr>)"

text \<open>
  \<open>calculateLighting\<close> returns the string \<open>rgb(red, green, blue)\<close>; the model returns the
  three channel values the string is printed from.
\<close>

record rgb =
  red :: number
  green :: number
  blue :: number

definition calculateLighting :: "Renderer \<Rightarrow> point \<Rightarrow> rgb" where
  "calculateLighting r normal =
     (let dot = px normal * px (lightDir r) + py normal * py (lightDir r) + pz normal * pz (lightDir r);
          intensity = Math_max (Fin (1/10)) dot;
          b = Math_floor (Fin 120 + Fin 135 * intensity);
          g = Math_floor (Fin 120 * intensity);
          rd = Math_floor (Fin 40 * intensity)
      in \<lparr>red = rd, green = g, blue = b\<rparr>)"

record triangle =
  points :: "point list"
  color :: rgb
  avgZ :: number

text \<open>
  The body of the two loops of \<open>draw\<close> at the quad \<open>(j, i)\<close>: it pushes at most two
  triangles onto \<open>triangles\<close>. The mesh it reads is the one \<open>createDeformedSphere\<close>
  returned, whose rows all have the same length, so every index below is in range.
\<close>

definition draw_quad ::
  "Renderer \<Rightarrow> number \<Rightarrow> number \<Rightarrow> number \<Rightarrow> point list list \<Rightarrow> nat \<Rightarrow> nat \<Rightarrow> triangle list \<Rightarrow> triangle list" where
  "draw_quad r rotX camAngle depth spherePoints j i triangles =
     (let p1 = rotatePoint (spherePoints ! j ! i) rotX camAngle;
          p2 = rotatePoint (spherePoints ! j ! (i + 1)) rotX camAngle;
          p3 = rotatePoint (spherePoints ! (j + 1) ! i) rotX camAngle;
          p4 = rotatePoint (spherePoints ! (j + 1) ! (i + 1)) rotX camAngle;
          p1_2d = projectPoint r p1 depth;
          p2_2d = projectPoint r p2 depth;
          p3_2d = projectPoint r p3 depth;
          p4_2d = projectPoint r p4 depth;
          normal1 = calculateNormal p1 p2 p3;
          normal2 = calculateNormal p2 p4 p3;
          triangles1 =
            (if pz normal1 < Fin 0
             then triangles @ [\<lparr>points = [p1_2d, p2_2d, p3_2d], color = calculateLighting r normal1,
                                avgZ = (pz p1 + pz p2 + pz p3) / Fin 3\<rparr>]
             else triangles);
          triangles2 =
            (if pz normal2 < Fin 0
             then triangles1 @ [\<lparr>points = [p2_2d, p4_2d, p3_2d], color = calculateLighting r normal2,
                                 avgZ = (pz p2 + pz p3 + pz p4) / Fin 3\<rparr>]
             else triangles1)
      in triangles2)"

function draw_row_loop ::
  "Renderer \<Rightarrow> number \<Rightarrow> number \<Rightarrow> number \<Rightarrow> point list list \<Rightarrow> nat \<Rightarrow> nat \<Rightarrow> triangle list \<Rightarrow> triangle list" where
  "draw_row_loop r rotX camAngle depth spherePoints j i triangles =
     (if int i < int (length (spherePoints ! j)) - 1
      then draw_row_loop r rotX camAngle depth spherePoints j (i + 1)
             (draw_quad r rotX camAngle depth spherePoints j i triangles)
      else triangles)"
  by pat_completeness auto
termination
  by (relation "measure (\<lambda>(r, rotX, camAngle, depth, spherePoints, j, i, triangles).
        length (spherePoints ! j) - i)") auto

declare draw_row_loop.simps [simp del]

function draw_loop ::
  "Renderer \<Rightarrow> number \<Rightarrow> number \<Rightarrow> number \<Rightarrow> point list list \<Rightarrow> nat \<Rightarrow> triangle list \<Rightarrow> triangle list" where
  "draw_loop r rotX camAngle depth spherePoints j triangles =
     (if int j < int (length spherePoints) - 1
      then draw_loop r rotX camAngle depth spherePoints (j + 1)
             (draw_row_loop r rotX camAngle depth spherePoints j 0 triangles)
      else triangles)"
  by pat_completeness auto
termination
  by (relation "measure (\<lambda>(r, rotX, camAngle, depth, spherePoints, j, triangles).
        length spherePoints - j)") auto

declare draw_loop.simps [simp del]

text \<open>
  \<open>triangles.sort((a, b) => a.avgZ - b.avgZ)\<close>. The language fixes the result of \<open>sort\<close>
  for a consistent comparator: the stable ordering of the array by it. The model is the
  stable insertion sort driven by that comparator, an element moving behind another
  exactly when the comparator is positive on the pair.
\<close>

definition compareFn :: "triangle \<Rightarrow> triangle \<Rightarrow> number" where
  "compareFn a b = avgZ a - avgZ b"

fun sort_insert :: "('a \<Rightarrow> 'a \<Rightarrow> number) \<Rightarrow> 'a \<Rightarrow> 'a list \<Rightarrow> 'a list" where
  "sort_insert cmp t [] = [t]"
| "sort_insert cmp t (u # us) =
     (if Fin 0 < cmp t u then u # sort_insert cmp t us else t # u # us)"

definition Array_sort :: "('a \<Rightarrow> 'a \<Rightarrow> number) \<Rightarrow> 'a list \<Rightarrow> 'a list" where
  "Array_sort cmp xs = foldr (sort_insert cmp) xs []"

text \<open>
  \<open>draw_triangles\<close> is the array \<open>triangles\<close> when the two loops are done, \<open>draw\<close> the
  triangles in the order the last loop fills them.
\<close>

definition draw_triangles :: "Renderer \<Rightarrow> number \<Rightarrow> number \<Rightarrow> number \<Rightarrow> int \<Rightarrow> int \<Rightarrow> triangle list" where
  "draw_triangles r rotX camAngle depth numPointsTheta numPointsPhi =
     (let spherePoints = createDeformedSphere (shapeDeformer r) numPointsTheta numPointsPhi
      in draw_loop r rotX camAngle depth spherePoints 0 [])"

definition draw :: "Renderer \<Rightarrow> number \<Rightarrow> number \<Rightarrow> number \<Rightarrow> int \<Rightarrow> int \<Rightarrow> triangle list" where
  "draw r rotX camAngle depth numPointsTheta numPointsPhi =
     Array_sort compareFn (draw_triangles r rotX camAngle depth numPointsTheta numPointsPhi)"

section \<open>Finite parameters\<close>

text \<open>
  The statements about real arithmetic speak of modes whose own parameters (the
  frequencies, the noise scale) are finite numbers.
\<close>

definition finiteMode :: "mode \<Rightarrow> bool" where
  "finiteMode m =
     (case cls m of
        DeformationMode \<Rightarrow> True
      | HarmonicMode thetaFreq phiFreq \<Rightarrow> isFin thetaFreq \<and> isFin phiFreq
      | CosineHarmonicMode thetaFreq phiFreq \<Rightarrow> isFin thetaFreq \<and> isFin phiFreq
      | MixedHarmonicMode \<Rightarrow> True
      | NoiseDeformation scale \<Rightarrow> isFin scale)"

section \<open>Properties of the shape deformer\<close>

lemma newShapeDeformer_modes:
  "modes (newShapeDeformer r) =
     [newMode ''Mode 1'' ''3 waves around equator, 2 waves pole-to-pole'' (HarmonicMode (Fin 3) (Fin 2)),
      newMode ''Mode 2'' ''5 waves around equator, 3 waves pole-to-pole'' (HarmonicMode (Fin 5) (Fin 3)),
      newMode ''Mode 3'' ''7 waves around equator, 1 wave pole-to-pole'' (HarmonicMode (Fin 7) (Fin 1)),
      newMode ''Pinch'' ''Pinching effect along longitude lines'' (CosineHarmonicMode (Fin 4) (Fin 4)),
      newMode ''Ripple'' ''Radial ripple effect from poles'' (HarmonicMode (Fin 0) (Fin 3)),
      newMode ''Twisted'' ''Twisted torus-like deformation'' MixedHarmonicMode,
      newMode ''Noise'' ''Organic, natural-looking irregularities'' (NoiseDeformation (Fin 1))]"
  by (simp add: newShapeDeformer_def setupDefaultModes_def addMode_def Let_def)

lemma applyPreset_loop_length: "length (applyPreset_loop ms amps i) = length ms"
  by (induction ms amps i rule: applyPreset_loop.induct) (subst applyPreset_loop.simps, simp)

lemma applyPreset_loop_nth:
  "k < length ms \<Longrightarrow>
   applyPreset_loop ms amps i ! k =
     (if i \<le> k \<and> k < length amps then (ms ! k)\<lparr>amplitude := amps ! k\<rparr> else ms ! k)"
proof (induction ms amps i rule: applyPreset_loop.induct)
  case (1 ms amps i)
  show ?case
  proof (cases "i < length ms \<and> i < length amps")
    case True
    then have "applyPreset_loop ms amps i ! k =
        applyPreset_loop (ms[i := (ms ! i)\<lparr>amplitude := amps ! i\<rparr>]) amps (i + 1) ! k"
      by (subst applyPreset_loop.simps) simp
    also have "\<dots> = (if i + 1 \<le> k \<and> k < length amps
        then ((ms[i := (ms ! i)\<lparr>amplitude := amps ! i\<rparr>]) ! k)\<lparr>amplitude := amps ! k\<rparr>
        else (ms[i := (ms ! i)\<lparr>amplitude := amps ! i\<rparr>]) ! k)"
      using "1.IH"[OF True] "1.prems" by simp
    also have "\<dots> = (if i \<le> k \<and> k < length amps then (ms ! k)\<lparr>amplitude := amps ! k\<rparr> else ms ! k)"
      using True "1.prems" by (cases "k = i") auto
    finally show ?thesis .
  next
    case False
    then have "applyPreset_loop ms amps i = ms"
      by (subst applyPreset_loop.simps) auto
    moreover have "\<not> (i \<le> k \<and> k < length amps)"
      using False "1.prems" by auto
    ultimately show ?thesis by auto
  qed
qed

text \<open>
  C8. \<open>applyPreset\<close> overwrites the amplitudes at the indices below the smaller of the
  mode count and the preset's length with the preset's values, index by index. The mode
  count, the base radius, every later mode, and the name, description, default amplitude
  and class (with its frequencies) of every mode stay as they were, and
  \<open>getCurrentPreset\<close> then returns the preset's values followed by the earlier amplitudes
  of the remaining modes.
\<close>

theorem applyPreset_frame:
  "length (modes (applyPreset sd p)) = length (modes sd)
   \<and> baseRadius (applyPreset sd p) = baseRadius sd
   \<and> (\<forall>k. k < min (length (modes sd)) (length (amplitudes p)) \<longrightarrow>
         modes (applyPreset sd p) ! k = (modes sd ! k)\<lparr>amplitude := amplitudes p ! k\<rparr>)
   \<and> (\<forall>k. min (length (modes sd)) (length (amplitudes p)) \<le> k \<and> k < length (modes sd) \<longrightarrow>
         modes (applyPreset sd p) ! k = modes sd ! k)
   \<and> (\<forall>k. k < length (modes sd) \<longrightarrow>
         name (modes (applyPreset sd p) ! k) = name (modes sd ! k)
       \<and> description (modes (applyPreset sd p) ! k) = description (modes sd ! k)
       \<and> defaultAmplitude (modes (applyPreset sd p) ! k) = defaultAmplitude (modes sd ! k)
       \<and> cls (modes (applyPreset sd p) ! k) = cls (modes sd ! k))
   \<and> amplitudes (getCurrentPreset (applyPreset sd p) nm) =
       take (min (length (modes sd)) (length (amplitudes p))) (amplitudes p)
       @ drop (min (length (modes sd)) (length (amplitudes p))) (map amplitude (modes sd))"
proof -
  let ?n = "min (length (modes sd)) (length (amplitudes p))"
  have len: "length (modes (applyPreset sd p)) = length (modes sd)"
    by (simp add: applyPreset_def applyPreset_loop_length)
  have nth: "\<And>k. k < length (modes sd) \<Longrightarrow> modes (applyPreset sd p) ! k =
      (if k < length (amplitudes p) then (modes sd ! k)\<lparr>amplitude := amplitudes p ! k\<rparr> else modes sd ! k)"
    by (simp add: applyPreset_def applyPreset_loop_nth)
  have cur: "amplitudes (getCurrentPreset (applyPreset sd p) nm) =
       take ?n (amplitudes p) @ drop ?n (map amplitude (modes sd))"
  proof (rule nth_equalityI)
    show "length (amplitudes (getCurrentPreset (applyPreset sd p) nm)) =
        length (take ?n (amplitudes p) @ drop ?n (map amplitude (modes sd)))"
      using len by (simp add: getCurrentPreset_def)
  next
    fix k assume "k < length (amplitudes (getCurrentPreset (applyPreset sd p) nm))"
    then have k: "k < length (modes sd)" using len by (simp add: getCurrentPreset_def)
    show "amplitudes (getCurrentPreset (applyPreset sd p) nm) ! k =
        (take ?n (amplitudes p) @ drop ?n (map amplitude (modes sd))) ! k"
      using k len nth[OF k] by (auto simp: getCurrentPreset_def nth_append)
  qed
  show ?thesis
    using len nth cur by (auto simp: applyPreset_def min_def)
qed

theorem applyPreset_frame_witness:
  "amplitudes (getCurrentPreset
      (applyPreset (snd (setAmplitude (newShapeDeformer (Fin 200)) 5 (Fin 7)))
         \<lparr>preset_name = ''Star'', amplitudes = [Fin 30, Fin 2, Fin 1]\<rparr>) None)
     = [Fin 30, Fin 2, Fin 1, Fin 0, Fin 0, Fin 7, Fin 0]"
  using applyPreset_frame [where sd = "snd (setAmplitude (newShapeDeformer (Fin 200)) 5 (Fin 7))"
      and p = "\<lparr>preset_name = ''Star'', amplitudes = [Fin 30, Fin 2, Fin 1]\<rparr>" and nm = None]
  by (simp add: setAmplitude_def newShapeDeformer_modes newMode_def)

text \<open>
  C9. With an index outside \<open>[0, modeCount)\<close>, \<open>setAmplitude\<close> and \<open>removeMode\<close> return
  false and the deformer is the one they were given. With an index inside, both return
  true; \<open>setAmplitude\<close> stores the value as it is in the amplitude of that mode and
  touches nothing else; \<open>removeMode\<close> drops that mode, the modes before it keep their
  index and the modes after it move down by one. Neither function has a failing branch.
\<close>

theorem index_operations:
  "(index < 0 \<or> int (length (modes sd)) \<le> index \<longrightarrow>
      setAmplitude sd index v = (False, sd) \<and> removeMode sd index = (False, sd))
   \<and> (0 \<le> index \<and> index < int (length (modes sd)) \<longrightarrow>
        fst (setAmplitude sd index v) = True
      \<and> baseRadius (snd (setAmplitude sd index v)) = baseRadius sd
      \<and> length (modes (snd (setAmplitude sd index v))) = length (modes sd)
      \<and> modes (snd (setAmplitude sd index v)) ! nat index = (modes sd ! nat index)\<lparr>amplitude := v\<rparr>
      \<and> amplitude (modes (snd (setAmplitude sd index v)) ! nat index) = v
      \<and> (\<forall>k. k < length (modes sd) \<and> k \<noteq> nat index \<longrightarrow>
            modes (snd (setAmplitude sd index v)) ! k = modes sd ! k)
      \<and> fst (removeMode sd index) = True
      \<and> baseRadius (snd (removeMode sd index)) = baseRadius sd
      \<and> length (modes (snd (removeMode sd index))) = length (modes sd) - 1
      \<and> (\<forall>k. k < nat index \<longrightarrow> modes (snd (removeMode sd index)) ! k = modes sd ! k)
      \<and> (\<forall>k. nat index \<le> k \<and> k + 1 < length (modes sd) \<longrightarrow>
            modes (snd (removeMode sd index)) ! k = modes sd ! (k + 1)))"
  by (auto simp: setAmplitude_def removeMode_def nth_append min_def)

theorem index_operations_witness:
  "setAmplitude (newShapeDeformer (Fin 200)) 7 (Fin 5) = (False, newShapeDeformer (Fin 200))
   \<and> removeMode (newShapeDeformer (Fin 200)) (- 1) = (False, newShapeDeformer (Fin 200))
   \<and> fst (setAmplitude (newShapeDeformer (Fin 200)) 2 (Fin 99)) = True
   \<and> amplitude (modes (snd (setAmplitude (newShapeDeformer (Fin 200)) 2 (Fin 99))) ! 2) = Fin 99
   \<and> fst (removeMode (newShapeDeformer (Fin 200)) 2) = True
   \<and> length (modes (snd (removeMode (newShapeDeformer (Fin 200)) 2))) = 6
   \<and> modes (snd (removeMode (newShapeDeformer (Fin 200)) 2)) ! 2 = modes (newShapeDeformer (Fin 200)) ! 3"
  using index_operations [where index = 7 and sd = "newShapeDeformer (Fin 200)" and v = "Fin 5"]
    index_operations [where index = "- 1" and sd = "newShapeDeformer (Fin 200)" and v = "Fin 5"]
    index_operations [where index = 2 and sd = "newShapeDeformer (Fin 200)" and v = "Fin 99"]
  by (simp add: newShapeDeformer_modes)

section \<open>Arithmetic of the special values\<close>

lemma minus_Fin [simp]: "Fin a - Fin b = Fin (a - b)"
  by (simp add: minus_number_def)

lemma plus_NaN_right [simp]: "a + NaN = NaN"
  by (cases a) simp_all

lemma minus_NaN [simp]: "a - NaN = NaN" "NaN - a = NaN"
  by (simp_all add: minus_number_def)

lemma times_NaN_right [simp]: "a * NaN = NaN"
  by (cases a) simp_all

lemma divide_NaN_right [simp]: "a / NaN = NaN"
  by (cases a) simp_all

lemma less_NaN_right [simp]: "\<not> a < NaN"
  by (cases a) simp_all

lemma isFin_iff: "isFin a \<longleftrightarrow> (\<exists>v. a = Fin v)"
  by (cases a) simp_all

lemma isFin_plus [simp]: "isFin (a + b) \<longleftrightarrow> isFin a \<and> isFin b"
  by (cases a; cases b) simp_all

lemma isFin_uminus [simp]: "isFin (- a) \<longleftrightarrow> isFin a"
  by (cases a) simp_all

lemma isFin_minus [simp]: "isFin (a - b) \<longleftrightarrow> isFin a \<and> isFin b"
  by (simp add: minus_number_def)

lemma isFin_times [simp]: "isFin (a * b) \<longleftrightarrow> isFin a \<and> isFin b"
  by (cases a; cases b) simp_all

lemma isFin_pow2 [simp]: "isFin (pow2 a) \<longleftrightarrow> isFin a"
  by (simp add: pow2_def)

lemma isFin_sqrt: "isFin (Math_sqrt a) \<Longrightarrow> isFin a"
  by (cases a) simp_all

section \<open>Periodicity of the harmonic mode\<close>




lemma Math_max_Fin [simp]: "Math_max (Fin a) (Fin b) = Fin (max a b)"
  by (auto simp: max_def)

section \<open>Lighting\<close>




section \<open>Projection\<close>

text \<open>
  C1 as stated fails: \<open>projectPoint\<close> divides by \<open>scale\<close> as it is. At the point
  \<open>(1, 0, - 1)\<close> with depth 1000 the scale is \<open>1 + (- 1) * (1000 / 1000) = 0\<close>, and the
  projected point has the coordinates Infinity and NaN.
\<close>

theorem projectPoint_singular_counterexample:
  "projectPoint \<lparr>canvas_width = Fin 800, canvas_height = Fin 600,
        lightDir = \<lparr>px = Fin 0, py = Fin 0, pz = Fin 1\<rparr>,
        shapeDeformer = newShapeDeformer (Fin 200)\<rparr>
      \<lparr>px = Fin 1, py = Fin 0, pz = Fin (- 1)\<rparr> (Fin 1000)
     = \<lparr>px = PInf, py = NaN, pz = Fin (- 1)\<rparr>"
  by (simp add: projectPoint_def Let_def)

text \<open>
  C1, as amended. For a finite point, a finite depth and a finite canvas size, when
  \<open>scale = 1 + z * (depth / 1000)\<close> is not zero the projected coordinates are the finite
  numbers \<open>width / 2 + x / scale\<close> and \<open>height / 2 + y / scale\<close>; when \<open>scale\<close> is zero
  neither projected coordinate is finite.
\<close>

theorem projectPoint_finite_iff:
  assumes w: "canvas_width r = Fin w" and h: "canvas_height r = Fin h"
  shows "(1 + z * (depth / 1000) \<noteq> 0 \<longrightarrow>
            projectPoint r \<lparr>px = Fin x, py = Fin y, pz = Fin z\<rparr> (Fin depth) =
              \<lparr>px = Fin (w / 2 + x / (1 + z * (depth / 1000))),
               py = Fin (h / 2 + y / (1 + z * (depth / 1000))),
               pz = Fin z\<rparr>)
       \<and> (1 + z * (depth / 1000) = 0 \<longrightarrow>
            \<not> isFin (px (projectPoint r \<lparr>px = Fin x, py = Fin y, pz = Fin z\<rparr> (Fin depth)))
          \<and> \<not> isFin (py (projectPoint r \<lparr>px = Fin x, py = Fin y, pz = Fin z\<rparr> (Fin depth))))"
  by (simp add: projectPoint_def Let_def w h)

theorem projectPoint_finite_iff_witness:
  "projectPoint \<lparr>canvas_width = Fin 800, canvas_height = Fin 600,
        lightDir = \<lparr>px = Fin 0, py = Fin 0, pz = Fin 1\<rparr>,
        shapeDeformer = newShapeDeformer (Fin 200)\<rparr>
      \<lparr>px = Fin 30, py = Fin 60, pz = Fin 2\<rparr> (Fin 500)
     = \<lparr>px = Fin 415, py = Fin 330, pz = Fin 2\<rparr>
   \<and> \<not> isFin (px (projectPoint \<lparr>canvas_width = Fin 800, canvas_height = Fin 600,
        lightDir = \<lparr>px = Fin 0, py = Fin 0, pz = Fin 1\<rparr>,
        shapeDeformer = newShapeDeformer (Fin 200)\<rparr>
      \<lparr>px = Fin 30, py = Fin 60, pz = Fin (- 2)\<rparr> (Fin 500)))"
  using projectPoint_finite_iff [where w = 800 and h = 600 and x = 30 and y = 60 and z = 2
      and depth = 500
      and r = "\<lparr>canvas_width = Fin 800, canvas_height = Fin 600,
        lightDir = \<lparr>px = Fin 0, py = Fin 0, pz = Fin 1\<rparr>,
        shapeDeformer = newShapeDeformer (Fin 200)\<rparr>"]
    projectPoint_finite_iff [where w = 800 and h = 600 and x = 30 and y = 60 and z = "- 2"
      and depth = 500
      and r = "\<lparr>canvas_width = Fin 800, canvas_height = Fin 600,
        lightDir = \<lparr>px = Fin 0, py = Fin 0, pz = Fin 1\<rparr>,
        shapeDeformer = newShapeDeformer (Fin 200)\<rparr>"]
  by simp

section \<open>The mesh\<close>

lemma sphereRow_loop_eq:
  "sphereRow_loop sd nT phi i row =
     row @ map (\<lambda>k. spherePoint sd (thetaAt nT k) phi) [i..nT]"
proof (induction sd nT phi i row rule: sphereRow_loop.induct)
  case (1 sd nT phi i row)
  show ?case
  proof (cases "i \<le> nT")
    case True
    then have "sphereRow_loop sd nT phi i row =
        sphereRow_loop sd nT phi (i + 1) (row @ [spherePoint sd (thetaAt nT i) phi])"
      by (subst sphereRow_loop.simps) simp
    also have "\<dots> = (row @ [spherePoint sd (thetaAt nT i) phi])
        @ map (\<lambda>k. spherePoint sd (thetaAt nT k) phi) [i + 1..nT]"
      using "1.IH"[OF True] .
    also have "\<dots> = row @ map (\<lambda>k. spherePoint sd (thetaAt nT k) phi) [i..nT]"
      using True by (simp add: upto_rec1 [of i nT])
    finally show ?thesis .
  next
    case False
    then show ?thesis
      by (subst sphereRow_loop.simps) simp
  qed
qed

lemma sphere_loop_eq:
  "sphere_loop sd nT nP j pts =
     pts @ map (\<lambda>k. sphereRow_loop sd nT (phiAt nP k) 0 []) [j..nP]"
proof (induction sd nT nP j pts rule: sphere_loop.induct)
  case (1 sd nT nP j pts)
  show ?case
  proof (cases "j \<le> nP")
    case True
    then have "sphere_loop sd nT nP j pts =
        sphere_loop sd nT nP (j + 1) (pts @ [sphereRow_loop sd nT (phiAt nP j) 0 []])"
      by (subst sphere_loop.simps) simp
    also have "\<dots> = (pts @ [sphereRow_loop sd nT (phiAt nP j) 0 []])
        @ map (\<lambda>k. sphereRow_loop sd nT (phiAt nP k) 0 []) [j + 1..nP]"
      using "1.IH"[OF True] .
    also have "\<dots> = pts @ map (\<lambda>k. sphereRow_loop sd nT (phiAt nP k) 0 []) [j..nP]"
      using True by (simp add: upto_rec1 [of j nP])
    finally show ?thesis .
  next
    case False
    then show ?thesis
      by (subst sphere_loop.simps) simp
  qed
qed

lemma createDeformedSphere_eq:
  "createDeformedSphere sd nT nP =
     map (\<lambda>j. map (\<lambda>i. spherePoint sd (thetaAt nT i) (phiAt nP j)) [0..nT]) [0..nP]"
  by (simp add: createDeformedSphere_def sphere_loop_eq sphereRow_loop_eq)

lemma createDeformedSphere_length:
  "length (createDeformedSphere sd nT nP) = nat (nP + 1)"
  by (simp add: createDeformedSphere_eq)

lemma createDeformedSphere_row_length:
  "j < nat (nP + 1) \<Longrightarrow> length (createDeformedSphere sd nT nP ! j) = nat (nT + 1)"
  by (simp add: createDeformedSphere_eq)

lemma createDeformedSphere_nth:
  "j < nat (nP + 1) \<Longrightarrow> i < nat (nT + 1) \<Longrightarrow>
   createDeformedSphere sd nT nP ! j ! i = spherePoint sd (thetaAt nT (int i)) (phiAt nP (int j))"
  by (simp add: createDeformedSphere_eq)

lemma spherePoint_NaN_phi: "spherePoint sd theta NaN = \<lparr>px = NaN, py = NaN, pz = NaN\<rparr>"
  by (simp add: spherePoint_def Let_def)

lemma times_NaN_left: "NaN * a = NaN"
  by simp

lemma spherePoint_NaN_theta:
  "px (spherePoint sd NaN phi) = NaN \<and> py (spherePoint sd NaN phi) = NaN"
  by (simp add: spherePoint_def Let_def)

lemma phiAt_zero: "phiAt 0 0 = NaN"
  by (simp add: phiAt_def Math_PI_def)

lemma thetaAt_zero: "thetaAt 0 0 = NaN"
  by (simp add: thetaAt_def Math_PI_def)

text \<open>
  C2, as amended. \<open>createDeformedSphere\<close> checks nothing and returns a grid for every
  pair of resolutions: \<open>numPointsPhi + 1\<close> rows of \<open>numPointsTheta + 1\<close> points, none when the
  number is negative. So the grid is empty for a negative \<open>numPointsPhi\<close>, its rows are
  empty for a negative \<open>numPointsTheta\<close>, for \<open>numPointsPhi = 0\<close> it is one row of points
  whose coordinates are all NaN, and for \<open>numPointsTheta = 0\<close> every row is one point whose
  \<open>x\<close> and \<open>y\<close> are NaN.
\<close>

theorem createDeformedSphere_no_precondition:
  "length (createDeformedSphere sd numPointsTheta numPointsPhi) = nat (numPointsPhi + 1)
   \<and> (\<forall>row \<in> set (createDeformedSphere sd numPointsTheta numPointsPhi).
         length row = nat (numPointsTheta + 1))
   \<and> (numPointsPhi < 0 \<longrightarrow> createDeformedSphere sd numPointsTheta numPointsPhi = [])
   \<and> (numPointsTheta < 0 \<longrightarrow>
         createDeformedSphere sd numPointsTheta numPointsPhi = replicate (nat (numPointsPhi + 1)) [])
   \<and> (numPointsPhi = 0 \<longrightarrow>
         createDeformedSphere sd numPointsTheta numPointsPhi =
           [replicate (nat (numPointsTheta + 1)) \<lparr>px = NaN, py = NaN, pz = NaN\<rparr>])
   \<and> (numPointsTheta = 0 \<longrightarrow>
         (\<forall>row \<in> set (createDeformedSphere sd numPointsTheta numPointsPhi).
            \<exists>p. row = [p] \<and> px p = NaN \<and> py p = NaN))"
proof -
  have a: "length (createDeformedSphere sd numPointsTheta numPointsPhi) = nat (numPointsPhi + 1)"
    by (rule createDeformedSphere_length)
  have b: "\<forall>row \<in> set (createDeformedSphere sd numPointsTheta numPointsPhi).
         length row = nat (numPointsTheta + 1)"
    by (auto simp: createDeformedSphere_eq)
  have c: "createDeformedSphere sd numPointsTheta numPointsPhi = []" if "numPointsPhi < 0"
    using that by (simp add: createDeformedSphere_eq)
  have d: "createDeformedSphere sd numPointsTheta numPointsPhi = replicate (nat (numPointsPhi + 1)) []"
    if "numPointsTheta < 0"
    using that by (simp add: createDeformedSphere_eq map_replicate_const)
  have e: "createDeformedSphere sd numPointsTheta numPointsPhi =
           [replicate (nat (numPointsTheta + 1)) \<lparr>px = NaN, py = NaN, pz = NaN\<rparr>]"
    if "numPointsPhi = 0"
    using that by (simp add: createDeformedSphere_eq phiAt_zero spherePoint_NaN_phi map_replicate_const)
  have f: "\<forall>row \<in> set (createDeformedSphere sd numPointsTheta numPointsPhi).
            \<exists>p. row = [p] \<and> px p = NaN \<and> py p = NaN" if "numPointsTheta = 0"
    using that by (auto simp: createDeformedSphere_eq thetaAt_zero spherePoint_NaN_theta)
  show ?thesis
    using a b c d e f by blast
qed

theorem createDeformedSphere_no_precondition_witness:
  "createDeformedSphere (newShapeDeformer (Fin 200)) (- 3) 1 = [[], []]
   \<and> createDeformedSphere (newShapeDeformer (Fin 200)) 2 (- 5) = []
   \<and> createDeformedSphere (newShapeDeformer (Fin 200)) 2 0 =
        [[\<lparr>px = NaN, py = NaN, pz = NaN\<rparr>, \<lparr>px = NaN, py = NaN, pz = NaN\<rparr>,
          \<lparr>px = NaN, py = NaN, pz = NaN\<rparr>]]
   \<and> length (createDeformedSphere (newShapeDeformer (Fin 200)) 0 3) = 4"
  using createDeformedSphere_no_precondition [where sd = "newShapeDeformer (Fin 200)"
      and numPointsTheta = "- 3" and numPointsPhi = 1]
    createDeformedSphere_no_precondition [where sd = "newShapeDeformer (Fin 200)"
      and numPointsTheta = 2 and numPointsPhi = "- 5"]
    createDeformedSphere_no_precondition [where sd = "newShapeDeformer (Fin 200)"
      and numPointsTheta = 2 and numPointsPhi = 0]
    createDeformedSphere_no_precondition [where sd = "newShapeDeformer (Fin 200)"
      and numPointsTheta = 0 and numPointsPhi = 3]
  by (simp add: numeral_eq_Suc)

text \<open>
  C2 as stated fails: with \<open>numPointsPhi = - 1\<close> the call returns the empty grid, with
  \<open>numPointsTheta = - 1\<close> it returns rows without points, and with \<open>numPointsPhi = 0\<close> a
  row of NaN points. None of the three calls signals an error.
\<close>

theorem createDeformedSphere_no_precondition_counterexample:
  "createDeformedSphere (newShapeDeformer (Fin 200)) 4 (- 1) = []
   \<and> createDeformedSphere (newShapeDeformer (Fin 200)) (- 1) 2 = [[], [], []]
   \<and> createDeformedSphere (newShapeDeformer (Fin 200)) 1 0 =
       [[\<lparr>px = NaN, py = NaN, pz = NaN\<rparr>, \<lparr>px = NaN, py = NaN, pz = NaN\<rparr>]]"
  by (simp add: createDeformedSphere_eq phiAt_zero spherePoint_NaN_phi upto.simps)

lemma phiAt_Fin: "nP \<noteq> 0 \<Longrightarrow> phiAt nP j = Fin (real_of_int j * pi / real_of_int nP)"
  by (simp add: phiAt_def Math_PI_def)

lemma thetaAt_Fin: "nT \<noteq> 0 \<Longrightarrow> thetaAt nT i = Fin (real_of_int i * 2 * pi / real_of_int nT)"
  by (simp add: thetaAt_def Math_PI_def)

lemma applyDeformation_zero_amplitude:
  assumes "amplitude m = Fin 0" and "finiteMode m"
  shows "applyDeformation m (Fin theta) (Fin phi) (Some \<lparr>px = Fin a, py = Fin b, pz = Fin c\<rparr>) = Fin 0"
proof (cases "cls m")
  case DeformationMode
  then show ?thesis by (simp add: applyDeformation_def)
next
  case (HarmonicMode tf pf)
  with assms obtain u v where "tf = Fin u" "pf = Fin v"
    by (auto simp: finiteMode_def isFin_iff)
  with HarmonicMode assms show ?thesis by (simp add: applyDeformation_def)
next
  case (CosineHarmonicMode tf pf)
  with assms obtain u v where "tf = Fin u" "pf = Fin v"
    by (auto simp: finiteMode_def isFin_iff)
  with CosineHarmonicMode assms show ?thesis by (simp add: applyDeformation_def)
next
  case MixedHarmonicMode
  with assms show ?thesis by (simp add: applyDeformation_def)
next
  case (NoiseDeformation sc)
  with assms obtain u where "sc = Fin u"
    by (auto simp: finiteMode_def isFin_iff)
  with NoiseDeformation assms show ?thesis by (simp add: applyDeformation_def noise3D_def)
qed







section \<open>The triangle list\<close>

lemma draw_quad_append:
  "draw_quad r rotX camAngle depth sp j i ts = ts @ draw_quad r rotX camAngle depth sp j i []"
  by (simp add: draw_quad_def Let_def)

lemma draw_row_loop_eq:
  "draw_row_loop r rotX camAngle depth sp j i ts =
     ts @ concat (map (\<lambda>k. draw_quad r rotX camAngle depth sp j k []) [i..<length (sp ! j) - 1])"
proof (induction r rotX camAngle depth sp j i ts rule: draw_row_loop.induct)
  case (1 r rotX camAngle depth sp j i ts)
  show ?case
  proof (cases "int i < int (length (sp ! j)) - 1")
    case True
    then have lt: "i < length (sp ! j) - 1" by linarith
    have "draw_row_loop r rotX camAngle depth sp j i ts =
        draw_row_loop r rotX camAngle depth sp j (i + 1) (draw_quad r rotX camAngle depth sp j i ts)"
      using True by (subst draw_row_loop.simps) simp
    also have "\<dots> = draw_quad r rotX camAngle depth sp j i ts
        @ concat (map (\<lambda>k. draw_quad r rotX camAngle depth sp j k []) [i + 1..<length (sp ! j) - 1])"
      using "1.IH"[OF True] .
    also have "\<dots> = ts @ concat (map (\<lambda>k. draw_quad r rotX camAngle depth sp j k [])
        (i # [i + 1..<length (sp ! j) - 1]))"
      by (subst draw_quad_append) simp
    also have "i # [i + 1..<length (sp ! j) - 1] = [i..<length (sp ! j) - 1]"
      using lt by (simp add: upt_conv_Cons)
    finally show ?thesis .
  next
    case False
    then have "\<not> i < length (sp ! j) - 1" by linarith
    then show ?thesis
      using False by (subst draw_row_loop.simps) simp
  qed
qed

lemma draw_loop_eq:
  "draw_loop r rotX camAngle depth sp j ts =
     ts @ concat (map (\<lambda>j'. concat (map (\<lambda>k. draw_quad r rotX camAngle depth sp j' k [])
                                     [0..<length (sp ! j') - 1]))
                  [j..<length sp - 1])"
proof (induction r rotX camAngle depth sp j ts rule: draw_loop.induct)
  case (1 r rotX camAngle depth sp j ts)
  let ?row = "\<lambda>j'. concat (map (\<lambda>k. draw_quad r rotX camAngle depth sp j' k [])
                                     [0..<length (sp ! j') - 1])"
  show ?case
  proof (cases "int j < int (length sp) - 1")
    case True
    then have lt: "j < length sp - 1" by linarith
    have "draw_loop r rotX camAngle depth sp j ts =
        draw_loop r rotX camAngle depth sp (j + 1) (draw_row_loop r rotX camAngle depth sp j 0 ts)"
      using True by (subst draw_loop.simps) simp
    also have "\<dots> = draw_row_loop r rotX camAngle depth sp j 0 ts
        @ concat (map ?row [j + 1..<length sp - 1])"
      using "1.IH"[OF True] .
    also have "\<dots> = ts @ concat (map ?row (j # [j + 1..<length sp - 1]))"
      by (simp add: draw_row_loop_eq)
    also have "j # [j + 1..<length sp - 1] = [j..<length sp - 1]"
      using lt by (simp add: upt_conv_Cons)
    finally show ?thesis .
  next
    case False
    then have "\<not> j < length sp - 1" by linarith
    then show ?thesis
      using False by (subst draw_loop.simps) simp
  qed
qed

lemma draw_triangles_eq:
  "draw_triangles r rotX camAngle depth nT nP =
     concat (map (\<lambda>j. concat (map (\<lambda>i.
         draw_quad r rotX camAngle depth (createDeformedSphere (shapeDeformer r) nT nP) j i [])
       [0..<nat nT])) [0..<nat nP])"
proof -
  let ?sp = "createDeformedSphere (shapeDeformer r) nT nP"
  have rows: "length ?sp - 1 = nat nP"
    by (simp add: createDeformedSphere_length)
  have cols: "length (?sp ! j) - 1 = nat nT" if "j < nat nP" for j
    using that by (simp add: createDeformedSphere_row_length)
  have "draw_triangles r rotX camAngle depth nT nP =
      concat (map (\<lambda>j. concat (map (\<lambda>i. draw_quad r rotX camAngle depth ?sp j i [])
        [0..<length (?sp ! j) - 1])) [0..<nat nP])"
    by (simp only: draw_triangles_def Let_def draw_loop_eq rows append_Nil)
  also have "\<dots> = concat (map (\<lambda>j. concat (map (\<lambda>i. draw_quad r rotX camAngle depth ?sp j i [])
        [0..<nat nT])) [0..<nat nP])"
    by (rule arg_cong [where f = concat], rule map_cong) (simp_all only: cols atLeastLessThan_iff set_upt)
  finally show ?thesis .
qed

lemma calculateNormal_Fin:
  "calculateNormal \<lparr>px = Fin x1, py = Fin y1, pz = Fin z1\<rparr> \<lparr>px = Fin x2, py = Fin y2, pz = Fin z2\<rparr>
       \<lparr>px = Fin x3, py = Fin y3, pz = Fin z3\<rparr> =
     (let cx = (y2 - y1) * (z3 - z1) - (z2 - z1) * (y3 - y1);
          cy = (z2 - z1) * (x3 - x1) - (x2 - x1) * (z3 - z1);
          cz = (x2 - x1) * (y3 - y1) - (y2 - y1) * (x3 - x1);
          len = sqrt (cx\<^sup>2 + cy\<^sup>2 + cz\<^sup>2)
      in if len = 0 then \<lparr>px = NaN, py = NaN, pz = NaN\<rparr>
         else \<lparr>px = Fin (cx / len), py = Fin (cy / len), pz = Fin (cz / len)\<rparr>)"
proof -
  let ?cx = "(y2 - y1) * (z3 - z1) - (z2 - z1) * (y3 - y1)"
  let ?cy = "(z2 - z1) * (x3 - x1) - (x2 - x1) * (z3 - z1)"
  let ?cz = "(x2 - x1) * (y3 - y1) - (y2 - y1) * (x3 - x1)"
  have nn: "\<not> ?cx * ?cx + ?cy * ?cy + ?cz * ?cz < 0"
    by (simp add: not_less add_nonneg_nonneg)
  have z: "?cx = 0 \<and> ?cy = 0 \<and> ?cz = 0" if "sqrt (?cx\<^sup>2 + ?cy\<^sup>2 + ?cz\<^sup>2) = 0"
  proof -
    from that have "?cx\<^sup>2 + ?cy\<^sup>2 + ?cz\<^sup>2 = 0" by simp
    then show ?thesis
      by (simp add: sum_power2_eq_zero_iff add_nonneg_eq_0_iff)
  qed
  show ?thesis
  proof (cases "sqrt (?cx\<^sup>2 + ?cy\<^sup>2 + ?cz\<^sup>2) = 0")
    case True
    with z have "?cx = 0" "?cy = 0" "?cz = 0" by simp_all
    then show ?thesis
      by (simp add: calculateNormal_def Let_def pow2_def)
  next
    case False
    then have "sqrt (?cx * ?cx + ?cy * ?cy + ?cz * ?cz) \<noteq> 0"
      by (simp add: power2_eq_square)
    with False nn show ?thesis
      by (simp add: calculateNormal_def Let_def pow2_def power2_eq_square)
  qed
qed

lemma draw_quad_explicit:
  "draw_quad r rotX camAngle depth sp j i ts =
     (let p1 = rotatePoint (sp ! j ! i) rotX camAngle;
          p2 = rotatePoint (sp ! j ! (i + 1)) rotX camAngle;
          p3 = rotatePoint (sp ! (j + 1) ! i) rotX camAngle;
          p4 = rotatePoint (sp ! (j + 1) ! (i + 1)) rotX camAngle;
          normal1 = calculateNormal p1 p2 p3;
          normal2 = calculateNormal p2 p4 p3
      in ts
         @ (if pz normal1 < Fin 0
            then [\<lparr>points = [projectPoint r p1 depth, projectPoint r p2 depth, projectPoint r p3 depth],
                   color = calculateLighting r normal1,
                   avgZ = (pz p1 + pz p2 + pz p3) / Fin 3\<rparr>]
            else [])
         @ (if pz normal2 < Fin 0
            then [\<lparr>points = [projectPoint r p2 depth, projectPoint r p4 depth, projectPoint r p3 depth],
                   color = calculateLighting r normal2,
                   avgZ = (pz p2 + pz p3 + pz p4) / Fin 3\<rparr>]
            else []))"
  by (simp add: draw_quad_def Let_def)

lemma calculateNormal_unit:
  fixes x1 y1 z1 x2 y2 z2 x3 y3 z3 :: real
  defines "cx \<equiv> (y2 - y1) * (z3 - z1) - (z2 - z1) * (y3 - y1)"
    and "cy \<equiv> (z2 - z1) * (x3 - x1) - (x2 - x1) * (z3 - z1)"
    and "cz \<equiv> (x2 - x1) * (y3 - y1) - (y2 - y1) * (x3 - x1)"
  defines "len \<equiv> sqrt (cx\<^sup>2 + cy\<^sup>2 + cz\<^sup>2)"
  assumes nz: "len \<noteq> 0"
  shows "calculateNormal \<lparr>px = Fin x1, py = Fin y1, pz = Fin z1\<rparr>
             \<lparr>px = Fin x2, py = Fin y2, pz = Fin z2\<rparr> \<lparr>px = Fin x3, py = Fin y3, pz = Fin z3\<rparr>
           = \<lparr>px = Fin (cx / len), py = Fin (cy / len), pz = Fin (cz / len)\<rparr>"
    and "(cx / len)\<^sup>2 + (cy / len)\<^sup>2 + (cz / len)\<^sup>2 = 1"
    and "cz / len < 0 \<longleftrightarrow> cz < 0"
proof -
  show "calculateNormal \<lparr>px = Fin x1, py = Fin y1, pz = Fin z1\<rparr>
             \<lparr>px = Fin x2, py = Fin y2, pz = Fin z2\<rparr> \<lparr>px = Fin x3, py = Fin y3, pz = Fin z3\<rparr>
           = \<lparr>px = Fin (cx / len), py = Fin (cy / len), pz = Fin (cz / len)\<rparr>"
    using nz unfolding len_def cx_def cy_def cz_def
    by (simp add: calculateNormal_Fin Let_def)
  have pos: "0 < len"
    using nz unfolding len_def by (metis less_eq_real_def real_sqrt_ge_zero sum_power2_ge_zero
        add_nonneg_nonneg zero_le_power2)
  have sq: "len\<^sup>2 = cx\<^sup>2 + cy\<^sup>2 + cz\<^sup>2"
    unfolding len_def by (simp add: add_nonneg_nonneg)
  have "(cx / len)\<^sup>2 + (cy / len)\<^sup>2 + (cz / len)\<^sup>2 = (cx\<^sup>2 + cy\<^sup>2 + cz\<^sup>2) / len\<^sup>2"
    by (simp add: power_divide add_divide_distrib)
  also have "\<dots> = len\<^sup>2 / len\<^sup>2"
    by (simp only: sq)
  also have "\<dots> = 1"
    using pos by simp
  finally show "(cx / len)\<^sup>2 + (cy / len)\<^sup>2 + (cz / len)\<^sup>2 = 1" .
  show "cz / len < 0 \<longleftrightarrow> cz < 0"
    using pos by (simp add: divide_less_0_iff)
qed

text \<open>
  C4. The array \<open>triangles\<close> of a frame is what the loop body pushes at the quads
  \<open>(j, i)\<close>, row by row. At a quad the body pushes the first triangle exactly when the
  \<open>z\<close> of \<open>calculateNormal p1 p2 p3\<close> is below 0, and then the second exactly when the
  \<open>z\<close> of \<open>calculateNormal p2 p4 p3\<close> is below 0, the \<open>p\<close> being the rotated corners, not
  the projected ones. For finite corners with a cross product of the edge vectors that
  is not zero, \<open>calculateNormal\<close> is that cross product divided by its length, in exact
  arithmetic a unit vector, and its \<open>z\<close> is below 0 exactly when the \<open>z\<close> of the cross
  product is.
\<close>

theorem backface_culling:
  fixes x1 y1 z1 x2 y2 z2 x3 y3 z3 :: real
  shows
  "draw_triangles r rotX camAngle depth numPointsTheta numPointsPhi =
     concat (map (\<lambda>j. concat (map (\<lambda>i.
         draw_quad r rotX camAngle depth
           (createDeformedSphere (shapeDeformer r) numPointsTheta numPointsPhi) j i [])
       [0..<nat numPointsTheta])) [0..<nat numPointsPhi])
   \<and> draw_quad r rotX camAngle depth sp j i ts =
     (let p1 = rotatePoint (sp ! j ! i) rotX camAngle;
          p2 = rotatePoint (sp ! j ! (i + 1)) rotX camAngle;
          p3 = rotatePoint (sp ! (j + 1) ! i) rotX camAngle;
          p4 = rotatePoint (sp ! (j + 1) ! (i + 1)) rotX camAngle;
          normal1 = calculateNormal p1 p2 p3;
          normal2 = calculateNormal p2 p4 p3
      in ts
         @ (if pz normal1 < Fin 0
            then [\<lparr>points = [projectPoint r p1 depth, projectPoint r p2 depth, projectPoint r p3 depth],
                   color = calculateLighting r normal1,
                   avgZ = (pz p1 + pz p2 + pz p3) / Fin 3\<rparr>]
            else [])
         @ (if pz normal2 < Fin 0
            then [\<lparr>points = [projectPoint r p2 depth, projectPoint r p4 depth, projectPoint r p3 depth],
                   color = calculateLighting r normal2,
                   avgZ = (pz p2 + pz p3 + pz p4) / Fin 3\<rparr>]
            else []))
   \<and> (let cx = (y2 - y1) * (z3 - z1) - (z2 - z1) * (y3 - y1);
           cy = (z2 - z1) * (x3 - x1) - (x2 - x1) * (z3 - z1);
           cz = (x2 - x1) * (y3 - y1) - (y2 - y1) * (x3 - x1);
           len = sqrt (cx\<^sup>2 + cy\<^sup>2 + cz\<^sup>2);
           normal = calculateNormal \<lparr>px = Fin x1, py = Fin y1, pz = Fin z1\<rparr>
                      \<lparr>px = Fin x2, py = Fin y2, pz = Fin z2\<rparr> \<lparr>px = Fin x3, py = Fin y3, pz = Fin z3\<rparr>
       in len \<noteq> 0 \<longrightarrow>
            normal = \<lparr>px = Fin (cx / len), py = Fin (cy / len), pz = Fin (cz / len)\<rparr>
          \<and> (cx / len)\<^sup>2 + (cy / len)\<^sup>2 + (cz / len)\<^sup>2 = 1
          \<and> (pz normal < Fin 0 \<longleftrightarrow> cz < 0))"
proof (intro conjI)
  show "draw_triangles r rotX camAngle depth numPointsTheta numPointsPhi =
     concat (map (\<lambda>j. concat (map (\<lambda>i.
         draw_quad r rotX camAngle depth
           (createDeformedSphere (shapeDeformer r) numPointsTheta numPointsPhi) j i [])
       [0..<nat numPointsTheta])) [0..<nat numPointsPhi])"
    by (rule draw_triangles_eq)
next
  show "draw_quad r rotX camAngle depth sp j i ts =
     (let p1 = rotatePoint (sp ! j ! i) rotX camAngle;
          p2 = rotatePoint (sp ! j ! (i + 1)) rotX camAngle;
          p3 = rotatePoint (sp ! (j + 1) ! i) rotX camAngle;
          p4 = rotatePoint (sp ! (j + 1) ! (i + 1)) rotX camAngle;
          normal1 = calculateNormal p1 p2 p3;
          normal2 = calculateNormal p2 p4 p3
      in ts
         @ (if pz normal1 < Fin 0
            then [\<lparr>points = [projectPoint r p1 depth, projectPoint r p2 depth, projectPoint r p3 depth],
                   color = calculateLighting r normal1,
                   avgZ = (pz p1 + pz p2 + pz p3) / Fin 3\<rparr>]
            else [])
         @ (if pz normal2 < Fin 0
            then [\<lparr>points = [projectPoint r p2 depth, projectPoint r p4 depth, projectPoint r p3 depth],
                   color = calculateLighting r normal2,
                   avgZ = (pz p2 + pz p3 + pz p4) / Fin 3\<rparr>]
            else []))"
    by (rule draw_quad_explicit)
next
  show "let cx = (y2 - y1) * (z3 - z1) - (z2 - z1) * (y3 - y1);
           cy = (z2 - z1) * (x3 - x1) - (x2 - x1) * (z3 - z1);
           cz = (x2 - x1) * (y3 - y1) - (y2 - y1) * (x3 - x1);
           len = sqrt (cx\<^sup>2 + cy\<^sup>2 + cz\<^sup>2);
           normal = calculateNormal \<lparr>px = Fin x1, py = Fin y1, pz = Fin z1\<rparr>
                      \<lparr>px = Fin x2, py = Fin y2, pz = Fin z2\<rparr> \<lparr>px = Fin x3, py = Fin y3, pz = Fin z3\<rparr>
       in len \<noteq> 0 \<longrightarrow>
            normal = \<lparr>px = Fin (cx / len), py = Fin (cy / len), pz = Fin (cz / len)\<rparr>
          \<and> (cx / len)\<^sup>2 + (cy / len)\<^sup>2 + (cz / len)\<^sup>2 = 1
          \<and> (pz normal < Fin 0 \<longleftrightarrow> cz < 0)"
    unfolding Let_def
    using calculateNormal_unit [of y2 y1 z3 z1 z2 y3 x3 x1 x2] by simp
qed

theorem backface_culling_witness:
  "draw_quad \<lparr>canvas_width = Fin 800, canvas_height = Fin 600,
        lightDir = \<lparr>px = Fin 0, py = Fin 0, pz = Fin (- 1)\<rparr>,
        shapeDeformer = newShapeDeformer (Fin 200)\<rparr> (Fin 0) (Fin 0) (Fin 0)
      [[\<lparr>px = Fin 0, py = Fin 0, pz = Fin 0\<rparr>, \<lparr>px = Fin 0, py = Fin 1, pz = Fin 0\<rparr>],
       [\<lparr>px = Fin 1, py = Fin 0, pz = Fin 0\<rparr>, \<lparr>px = Fin 1, py = Fin 1, pz = Fin 0\<rparr>]] 0 0 []
     = [\<lparr>points = [\<lparr>px = Fin 400, py = Fin 300, pz = Fin 0\<rparr>,
                    \<lparr>px = Fin 400, py = Fin 301, pz = Fin 0\<rparr>,
                    \<lparr>px = Fin 401, py = Fin 300, pz = Fin 0\<rparr>],
         color = \<lparr>red = Fin 40, green = Fin 120, blue = Fin 255\<rparr>, avgZ = Fin 0\<rparr>,
        \<lparr>points = [\<lparr>px = Fin 400, py = Fin 301, pz = Fin 0\<rparr>,
                    \<lparr>px = Fin 401, py = Fin 301, pz = Fin 0\<rparr>,
                    \<lparr>px = Fin 401, py = Fin 300, pz = Fin 0\<rparr>],
         color = \<lparr>red = Fin 40, green = Fin 120, blue = Fin 255\<rparr>, avgZ = Fin 0\<rparr>]
   \<and> draw_quad \<lparr>canvas_width = Fin 800, canvas_height = Fin 600,
        lightDir = \<lparr>px = Fin 0, py = Fin 0, pz = Fin (- 1)\<rparr>,
        shapeDeformer = newShapeDeformer (Fin 200)\<rparr> (Fin 0) (Fin 0) (Fin 0)
      [[\<lparr>px = Fin 0, py = Fin 0, pz = Fin 0\<rparr>, \<lparr>px = Fin 1, py = Fin 0, pz = Fin 0\<rparr>],
       [\<lparr>px = Fin 0, py = Fin 1, pz = Fin 0\<rparr>, \<lparr>px = Fin 1, py = Fin 1, pz = Fin 0\<rparr>]] 0 0 []
     = []
   \<and> calculateNormal \<lparr>px = Fin 0, py = Fin 0, pz = Fin 0\<rparr> \<lparr>px = Fin 0, py = Fin 2, pz = Fin 0\<rparr>
        \<lparr>px = Fin 2, py = Fin 0, pz = Fin 0\<rparr> = \<lparr>px = Fin 0, py = Fin 0, pz = Fin (- 1)\<rparr>"
  using backface_culling [where r = "\<lparr>canvas_width = Fin 800, canvas_height = Fin 600,
        lightDir = \<lparr>px = Fin 0, py = Fin 0, pz = Fin (- 1)\<rparr>,
        shapeDeformer = newShapeDeformer (Fin 200)\<rparr>" and rotX = "Fin 0" and camAngle = "Fin 0"
      and depth = "Fin 0" and j = 0 and i = 0 and ts = "[]"
      and sp = "[[\<lparr>px = Fin 0, py = Fin 0, pz = Fin 0\<rparr>, \<lparr>px = Fin 0, py = Fin 1, pz = Fin 0\<rparr>],
       [\<lparr>px = Fin 1, py = Fin 0, pz = Fin 0\<rparr>, \<lparr>px = Fin 1, py = Fin 1, pz = Fin 0\<rparr>]]"
      and ?x1.0 = 0 and ?y1.0 = 0 and ?z1.0 = 0 and ?x2.0 = 0 and ?y2.0 = 2 and ?z2.0 = 0
      and ?x3.0 = 2 and ?y3.0 = 0 and ?z3.0 = 0]
    backface_culling [where r = "\<lparr>canvas_width = Fin 800, canvas_height = Fin 600,
        lightDir = \<lparr>px = Fin 0, py = Fin 0, pz = Fin (- 1)\<rparr>,
        shapeDeformer = newShapeDeformer (Fin 200)\<rparr>" and rotX = "Fin 0" and camAngle = "Fin 0"
      and depth = "Fin 0" and j = 0 and i = 0 and ts = "[]"
      and sp = "[[\<lparr>px = Fin 0, py = Fin 0, pz = Fin 0\<rparr>, \<lparr>px = Fin 1, py = Fin 0, pz = Fin 0\<rparr>],
       [\<lparr>px = Fin 0, py = Fin 1, pz = Fin 0\<rparr>, \<lparr>px = Fin 1, py = Fin 1, pz = Fin 0\<rparr>]]"]
  by (simp add: Let_def rotatePoint_def projectPoint_def calculateNormal_def calculateLighting_def
      pow2_def Math_PI_def)

section \<open>The painting order\<close>

lemma divide_sqrt_negative:
  "a / Math_sqrt s < Fin 0 \<Longrightarrow> isFin s"
  by (cases a; cases s) (simp_all split: if_splits)

lemma facing_finite:
  assumes "pz (calculateNormal p1 p2 p3) < Fin 0"
  shows "isFin (pz p1) \<and> isFin (pz p2) \<and> isFin (pz p3)"
proof -
  let ?v1y = "py p2 - py p1" and ?v1z = "pz p2 - pz p1"
  let ?v2y = "py p3 - py p1" and ?v2z = "pz p3 - pz p1"
  let ?v1x = "px p2 - px p1" and ?v2x = "px p3 - px p1"
  let ?cx = "?v1y * ?v2z - ?v1z * ?v2y"
  let ?cy = "?v1z * ?v2x - ?v1x * ?v2z"
  let ?cz = "?v1x * ?v2y - ?v1y * ?v2x"
  from assms have "?cz / Math_sqrt (pow2 ?cx + pow2 ?cy + pow2 ?cz) < Fin 0"
    by (simp add: calculateNormal_def Let_def)
  then have "isFin (pow2 ?cx + pow2 ?cy + pow2 ?cz)"
    by (rule divide_sqrt_negative)
  then have "isFin ?cx" by simp
  then show ?thesis by simp
qed

lemma rotatePoint_pz_projectPoint [simp]: "pz (projectPoint r p depth) = pz p"
  by (simp add: projectPoint_def Let_def)

lemma draw_quad_member:
  assumes "t \<in> set (draw_quad r rotX camAngle depth sp j i [])"
  shows "\<exists>a b c. map pz (points t) = [Fin a, Fin b, Fin c] \<and> avgZ t = Fin ((a + b + c) / 3)"
proof -
  let ?p1 = "rotatePoint (sp ! j ! i) rotX camAngle"
  let ?p2 = "rotatePoint (sp ! j ! (i + 1)) rotX camAngle"
  let ?p3 = "rotatePoint (sp ! (j + 1) ! i) rotX camAngle"
  let ?p4 = "rotatePoint (sp ! (j + 1) ! (i + 1)) rotX camAngle"
  let ?t1 = "\<lparr>points = [projectPoint r ?p1 depth, projectPoint r ?p2 depth, projectPoint r ?p3 depth],
              color = calculateLighting r (calculateNormal ?p1 ?p2 ?p3),
              avgZ = (pz ?p1 + pz ?p2 + pz ?p3) / Fin 3\<rparr>"
  let ?t2 = "\<lparr>points = [projectPoint r ?p2 depth, projectPoint r ?p4 depth, projectPoint r ?p3 depth],
              color = calculateLighting r (calculateNormal ?p2 ?p4 ?p3),
              avgZ = (pz ?p2 + pz ?p3 + pz ?p4) / Fin 3\<rparr>"
  from assms consider
      (first) "t = ?t1" "pz (calculateNormal ?p1 ?p2 ?p3) < Fin 0"
    | (second) "t = ?t2" "pz (calculateNormal ?p2 ?p4 ?p3) < Fin 0"
    by (auto simp: draw_quad_explicit Let_def split: if_splits)
  then show ?thesis
  proof cases
    case first
    from facing_finite [OF first(2)] obtain a b c
      where "pz ?p1 = Fin a" "pz ?p2 = Fin b" "pz ?p3 = Fin c"
      by (auto simp: isFin_iff)
    with first(1) show ?thesis by simp
  next
    case second
    from facing_finite [OF second(2)] obtain a b c
      where "pz ?p2 = Fin a" "pz ?p4 = Fin b" "pz ?p3 = Fin c"
      by (auto simp: isFin_iff)
    with second(1) have "map pz (points t) = [Fin a, Fin b, Fin c] \<and> avgZ t = Fin ((a + b + c) / 3)"
      by (simp add: add.commute add.left_commute)
    then show ?thesis by (intro exI)
  qed
qed

lemma draw_triangles_member:
  assumes "t \<in> set (draw_triangles r rotX camAngle depth nT nP)"
  shows "\<exists>a b c. map pz (points t) = [Fin a, Fin b, Fin c] \<and> avgZ t = Fin ((a + b + c) / 3)"
  using assms by (auto simp: draw_triangles_eq dest: draw_quad_member)

lemma mset_sort_insert: "mset (sort_insert cmp t us) = add_mset t (mset us)"
  by (induction us) simp_all

lemma mset_Array_sort: "mset (Array_sort cmp ts) = mset ts"
  by (induction ts) (simp_all add: Array_sort_def mset_sort_insert)

lemma set_sort_insert: "set (sort_insert cmp t us) = insert t (set us)"
  by (induction us) auto

lemma sorted_sort_insert:
  assumes "\<forall>u \<in> set (t # us). isFin (avgZ u)"
    and "sorted_wrt (\<lambda>a b. \<not> avgZ b < avgZ a) us"
  shows "sorted_wrt (\<lambda>a b. \<not> avgZ b < avgZ a) (sort_insert compareFn t us)"
  using assms
proof (induction us)
  case Nil
  then show ?case by simp
next
  case (Cons u us)
  from Cons.prems(1) obtain zt zu where z: "avgZ t = Fin zt" "avgZ u = Fin zu"
    by (auto simp: isFin_iff)
  have fin: "\<forall>x \<in> set us. \<exists>zx. avgZ x = Fin zx"
    using Cons.prems(1) by (auto simp: isFin_iff)
  have tail: "\<forall>x \<in> set us. \<not> avgZ x < avgZ u" "sorted_wrt (\<lambda>a b. \<not> avgZ b < avgZ a) us"
    using Cons.prems(2) by simp_all
  show ?case
  proof (cases "Fin 0 < compareFn t u")
    case True
    then have lt: "zu < zt" by (simp add: compareFn_def z)
    have "sorted_wrt (\<lambda>a b. \<not> avgZ b < avgZ a) (sort_insert compareFn t us)"
      using Cons.IH Cons.prems(1) tail(2) by simp
    moreover have "\<forall>x \<in> set (sort_insert compareFn t us). \<not> avgZ x < avgZ u"
      using tail(1) lt by (auto simp: set_sort_insert z)
    ultimately show ?thesis using True by simp
  next
    case False
    then have le: "zt \<le> zu" by (simp add: compareFn_def z)
    have "\<forall>x \<in> set us. \<not> avgZ x < avgZ t"
    proof
      fix x assume x: "x \<in> set us"
      with fin obtain zx where zx: "avgZ x = Fin zx" by blast
      from bspec [OF tail(1) x] have "\<not> zx < zu" by (simp add: zx z)
      with le show "\<not> avgZ x < avgZ t" by (simp add: zx z)
    qed
    moreover have "\<not> avgZ u < avgZ t" using le by (simp add: z)
    ultimately show ?thesis using False Cons.prems(2) by simp
  qed
qed

lemma sorted_Array_sort:
  "\<forall>u \<in> set ts. isFin (avgZ u) \<Longrightarrow>
   sorted_wrt (\<lambda>a b. \<not> avgZ b < avgZ a) (Array_sort compareFn ts)"
proof (induction ts)
  case Nil
  then show ?case by (simp add: Array_sort_def)
next
  case (Cons t ts)
  have s: "set (Array_sort compareFn ts) = set ts"
    by (metis mset_Array_sort set_mset_mset)
  have "sorted_wrt (\<lambda>a b. \<not> avgZ b < avgZ a) (sort_insert compareFn t (Array_sort compareFn ts))"
    using Cons by (intro sorted_sort_insert) (simp_all add: s)
  then show ?case by (simp add: Array_sort_def)
qed

lemma less_number_irrefl: "\<not> (a::number) < a"
  by (cases a) simp_all

text \<open>
  C5. Every triangle that \<open>draw\<close> fills has finite rotated \<open>z\<close> coordinates at its three
  corners (the projection keeps the rotated \<open>z\<close> of a point) and its \<open>avgZ\<close> is their
  arithmetic mean. The triangles filled are the surviving ones, each as often as it
  was pushed, and they are filled in ascending order of \<open>avgZ\<close>: a triangle with a
  smaller \<open>avgZ\<close> than another is filled before it.
\<close>

theorem painters_order:
  "(\<forall>t \<in> set (draw r rotX camAngle depth numPointsTheta numPointsPhi).
       \<exists>a b c. map pz (points t) = [Fin a, Fin b, Fin c] \<and> avgZ t = Fin ((a + b + c) / 3))
   \<and> mset (draw r rotX camAngle depth numPointsTheta numPointsPhi)
       = mset (draw_triangles r rotX camAngle depth numPointsTheta numPointsPhi)
   \<and> (\<forall>m n. m < length (draw r rotX camAngle depth numPointsTheta numPointsPhi)
          \<and> n < length (draw r rotX camAngle depth numPointsTheta numPointsPhi)
          \<and> avgZ (draw r rotX camAngle depth numPointsTheta numPointsPhi ! m)
              < avgZ (draw r rotX camAngle depth numPointsTheta numPointsPhi ! n)
          \<longrightarrow> m < n)"
proof -
  let ?ts = "draw_triangles r rotX camAngle depth numPointsTheta numPointsPhi"
  let ?ds = "draw r rotX camAngle depth numPointsTheta numPointsPhi"
  have ms: "mset ?ds = mset ?ts"
    by (simp add: draw_def mset_Array_sort)
  then have st: "set ?ds = set ?ts"
    by (metis set_mset_mset)
  have mean: "\<forall>t \<in> set ?ds. \<exists>a b c. map pz (points t) = [Fin a, Fin b, Fin c]
      \<and> avgZ t = Fin ((a + b + c) / 3)"
    using st draw_triangles_member by blast
  have "\<forall>u \<in> set ?ts. isFin (avgZ u)"
    using draw_triangles_member by (fastforce simp: isFin_iff)
  then have sorted: "sorted_wrt (\<lambda>a b. \<not> avgZ b < avgZ a) ?ds"
    unfolding draw_def by (rule sorted_Array_sort)
  have order: "m < n" if "m < length ?ds" "n < length ?ds" "avgZ (?ds ! m) < avgZ (?ds ! n)" for m n
  proof (rule ccontr)
    assume "\<not> m < n"
    then consider "n = m" | "n < m" by linarith
    then show False
    proof cases
      case 1
      with that(3) show False by (simp add: less_number_irrefl)
    next
      case 2
      with sorted that(1) have "\<not> avgZ (?ds ! m) < avgZ (?ds ! n)"
        by (simp add: sorted_wrt_iff_nth_less)
      with that(3) show False by simp
    qed
  qed
  show ?thesis
    using mean ms order by blast
qed

lemma trig_three_halves: "sin (pi * 3 / 2) = - 1" "cos (pi * 3 / 2) = 0"
proof -
  have e: "pi * 3 / 2 = pi + pi / 2" by simp
  show "sin (pi * 3 / 2) = - 1" by (simp only: e sin_periodic_pi2 sin_pi_half)
  show "cos (pi * 3 / 2) = 0" by (simp only: e cos_periodic_pi2 cos_pi_half neg_equal_zero)
qed

lemma mesh_example:
  "createDeformedSphere \<lparr>baseRadius = Fin 10,
       modes = [\<lparr>name = ''Bulge'', description = [], defaultAmplitude = Fin 0, amplitude = Fin 30,
                 cls = HarmonicMode (Fin 1) (Fin 1)\<rparr>]\<rparr> 4 2 =
     [[\<lparr>px = Fin 0, py = Fin 0, pz = Fin 10\<rparr>, \<lparr>px = Fin 0, py = Fin 0, pz = Fin 10\<rparr>,
       \<lparr>px = Fin 0, py = Fin 0, pz = Fin 10\<rparr>, \<lparr>px = Fin 0, py = Fin 0, pz = Fin 10\<rparr>,
       \<lparr>px = Fin 0, py = Fin 0, pz = Fin 10\<rparr>],
      [\<lparr>px = Fin 10, py = Fin 0, pz = Fin 0\<rparr>, \<lparr>px = Fin 0, py = Fin 40, pz = Fin 0\<rparr>,
       \<lparr>px = Fin (- 10), py = Fin 0, pz = Fin 0\<rparr>, \<lparr>px = Fin 0, py = Fin 20, pz = Fin 0\<rparr>,
       \<lparr>px = Fin 10, py = Fin 0, pz = Fin 0\<rparr>],
      [\<lparr>px = Fin 0, py = Fin 0, pz = Fin (- 10)\<rparr>, \<lparr>px = Fin 0, py = Fin 0, pz = Fin (- 10)\<rparr>,
       \<lparr>px = Fin 0, py = Fin 0, pz = Fin (- 10)\<rparr>, \<lparr>px = Fin 0, py = Fin 0, pz = Fin (- 10)\<rparr>,
       \<lparr>px = Fin 0, py = Fin 0, pz = Fin (- 10)\<rparr>]]"
  by (simp add: createDeformedSphere_eq upto.simps spherePoint_def applyDeformation_def
      thetaAt_def phiAt_def Math_PI_def Let_def trig_three_halves)

lemma draw_triangles_example:
  "map avgZ (draw_triangles \<lparr>canvas_width = Fin 800, canvas_height = Fin 600,
        lightDir = \<lparr>px = Fin 0, py = Fin 0, pz = Fin (- 1)\<rparr>,
        shapeDeformer = \<lparr>baseRadius = Fin 10,
          modes = [\<lparr>name = ''Bulge'', description = [], defaultAmplitude = Fin 0, amplitude = Fin 30,
                 cls = HarmonicMode (Fin 1) (Fin 1)\<rparr>]\<rparr>\<rparr> (Fin 0) (Fin 0) (Fin 0) 4 2)
     = [Fin (10 / 3), Fin (10 / 3), Fin (- (10 / 3)), Fin (- (10 / 3))]"
  by (simp add: draw_triangles_eq mesh_example draw_quad_explicit Let_def rotatePoint_def
      calculateNormal_def pow2_def Math_PI_def upt_rec zero_less_divide_iff divide_less_0_iff)

lemma map_avgZ_sort_insert:
  "map avgZ (sort_insert compareFn t us) = sort_insert (\<lambda>a b. a - b) (avgZ t) (map avgZ us)"
  by (induction us) (simp_all add: compareFn_def)

lemma map_avgZ_Array_sort:
  "map avgZ (Array_sort compareFn ts) = Array_sort (\<lambda>a b. a - b) (map avgZ ts)"
  by (induction ts) (simp_all add: Array_sort_def map_avgZ_sort_insert)

lemma draw_example:
  "map avgZ (draw \<lparr>canvas_width = Fin 800, canvas_height = Fin 600,
        lightDir = \<lparr>px = Fin 0, py = Fin 0, pz = Fin (- 1)\<rparr>,
        shapeDeformer = \<lparr>baseRadius = Fin 10,
          modes = [\<lparr>name = ''Bulge'', description = [], defaultAmplitude = Fin 0, amplitude = Fin 30,
                 cls = HarmonicMode (Fin 1) (Fin 1)\<rparr>]\<rparr>\<rparr> (Fin 0) (Fin 0) (Fin 0) 4 2)
     = [Fin (- (10 / 3)), Fin (- (10 / 3)), Fin (10 / 3), Fin (10 / 3)]"
  by (simp only: draw_def map_avgZ_Array_sort draw_triangles_example) (simp add: Array_sort_def)

theorem painters_order_witness:
  "map avgZ (draw \<lparr>canvas_width = Fin 800, canvas_height = Fin 600,
        lightDir = \<lparr>px = Fin 0, py = Fin 0, pz = Fin (- 1)\<rparr>,
        shapeDeformer = \<lparr>baseRadius = Fin 10,
          modes = [\<lparr>name = ''Bulge'', description = [], defaultAmplitude = Fin 0, amplitude = Fin 30,
                 cls = HarmonicMode (Fin 1) (Fin 1)\<rparr>]\<rparr>\<rparr> (Fin 0) (Fin 0) (Fin 0) 4 2)
     = [Fin (- (10 / 3)), Fin (- (10 / 3)), Fin (10 / 3), Fin (10 / 3)]
   \<and> map avgZ (draw_triangles \<lparr>canvas_width = Fin 800, canvas_height = Fin 600,
        lightDir = \<lparr>px = Fin 0, py = Fin 0, pz = Fin (- 1)\<rparr>,
        shapeDeformer = \<lparr>baseRadius = Fin 10,
          modes = [\<lparr>name = ''Bulge'', description = [], defaultAmplitude = Fin 0, amplitude = Fin 30,
                 cls = HarmonicMode (Fin 1) (Fin 1)\<rparr>]\<rparr>\<rparr> (Fin 0) (Fin 0) (Fin 0) 4 2)
     = [Fin (10 / 3), Fin (10 / 3), Fin (- (10 / 3)), Fin (- (10 / 3))]
   \<and> mset (draw \<lparr>canvas_width = Fin 800, canvas_height = Fin 600,
        lightDir = \<lparr>px = Fin 0, py = Fin 0, pz = Fin (- 1)\<rparr>,
        shapeDeformer = \<lparr>baseRadius = Fin 10,
          modes = [\<lparr>name = ''Bulge'', description = [], defaultAmplitude = Fin 0, amplitude = Fin 30,
                 cls = HarmonicMode (Fin 1) (Fin 1)\<rparr>]\<rparr>\<rparr> (Fin 0) (Fin 0) (Fin 0) 4 2)
     = mset (draw_triangles \<lparr>canvas_width = Fin 800, canvas_height = Fin 600,
        lightDir = \<lparr>px = Fin 0, py = Fin 0, pz = Fin (- 1)\<rparr>,
        shapeDeformer = \<lparr>baseRadius = Fin 10,
          modes = [\<lparr>name = ''Bulge'', description = [], defaultAmplitude = Fin 0, amplitude = Fin 30,
                 cls = HarmonicMode (Fin 1) (Fin 1)\<rparr>]\<rparr>\<rparr> (Fin 0) (Fin 0) (Fin 0) 4 2)
   \<and> avgZ (draw \<lparr>canvas_width = Fin 800, canvas_height = Fin 600,
        lightDir = \<lparr>px = Fin 0, py = Fin 0, pz = Fin (- 1)\<rparr>,
        shapeDeformer = \<lparr>baseRadius = Fin 10,
          modes = [\<lparr>name = ''Bulge'', description = [], defaultAmplitude = Fin 0, amplitude = Fin 30,
                 cls = HarmonicMode (Fin 1) (Fin 1)\<rparr>]\<rparr>\<rparr> (Fin 0) (Fin 0) (Fin 0) 4 2 ! 1)
       < avgZ (draw \<lparr>canvas_width = Fin 800, canvas_height = Fin 600,
        lightDir = \<lparr>px = Fin 0, py = Fin 0, pz = Fin (- 1)\<rparr>,
        shapeDeformer = \<lparr>baseRadius = Fin 10,
          modes = [\<lparr>name = ''Bulge'', description = [], defaultAmplitude = Fin 0, amplitude = Fin 30,
                 cls = HarmonicMode (Fin 1) (Fin 1)\<rparr>]\<rparr>\<rparr> (Fin 0) (Fin 0) (Fin 0) 4 2 ! 2)"
proof -
  let ?r = "\<lparr>canvas_width = Fin 800, canvas_height = Fin 600,
        lightDir = \<lparr>px = Fin 0, py = Fin 0, pz = Fin (- 1)\<rparr>,
        shapeDeformer = \<lparr>baseRadius = Fin 10,
          modes = [\<lparr>name = ''Bulge'', description = [], defaultAmplitude = Fin 0, amplitude = Fin 30,
                 cls = HarmonicMode (Fin 1) (Fin 1)\<rparr>]\<rparr>\<rparr>"
  let ?ds = "draw ?r (Fin 0) (Fin 0) (Fin 0) 4 2"
  have len: "length ?ds = 4"
    using arg_cong [OF draw_example, of length] by simp
  have "avgZ (?ds ! 1) = map avgZ ?ds ! 1" "avgZ (?ds ! 2) = map avgZ ?ds ! 2"
    using len by simp_all
  then have lt: "avgZ (?ds ! 1) < avgZ (?ds ! 2)"
    by (simp add: draw_example)
  have "mset ?ds = mset (draw_triangles ?r (Fin 0) (Fin 0) (Fin 0) 4 2)"
    using painters_order [where r = ?r and rotX = "Fin 0" and camAngle = "Fin 0" and depth = "Fin 0"
        and numPointsTheta = 4 and numPointsPhi = 2]
    by blast
  then show ?thesis
    using draw_example draw_triangles_example lt by simp
qed

section \<open>Degenerate triangles\<close>

lemma minus_self_zero_or_NaN: "(a::number) - a = Fin 0 \<or> a - a = NaN"
  by (cases a) (simp_all add: minus_number_def)

lemma times_zero_or_NaN_left:
  "d = Fin 0 \<or> d = NaN \<Longrightarrow> d * w = Fin 0 \<or> d * w = NaN"
  by (cases w) auto

lemma times_zero_or_NaN_right:
  "d = Fin 0 \<or> d = NaN \<Longrightarrow> w * d = Fin 0 \<or> w * d = NaN"
  by (cases w) auto

lemma minus_zero_or_NaN:
  "u = Fin 0 \<or> u = NaN \<Longrightarrow> v = Fin 0 \<or> v = NaN \<Longrightarrow> u - v = Fin 0 \<or> u - v = NaN"
  by auto

lemma commuted_products_zero_or_NaN: "(u::number) * w - w * u = Fin 0 \<or> u * w - w * u = NaN"
  by (cases u; cases w) (auto simp: minus_number_def mult.commute)

lemma length_zero_or_NaN:
  assumes "a = Fin 0 \<or> a = NaN" "b = Fin 0 \<or> b = NaN" "c = Fin 0 \<or> c = NaN"
  shows "Math_sqrt (pow2 a + pow2 b + pow2 c) = Fin 0 \<or> Math_sqrt (pow2 a + pow2 b + pow2 c) = NaN"
  using assms by (auto simp: pow2_def)

lemma divide_zero_or_NaN:
  "u = Fin 0 \<or> u = NaN \<Longrightarrow> l = Fin 0 \<or> l = NaN \<Longrightarrow> u / l = NaN"
  by auto

lemma normal_of_zero_cross:
  assumes "a = Fin 0 \<or> a = NaN" "b = Fin 0 \<or> b = NaN" "c = Fin 0 \<or> c = NaN"
  shows "\<lparr>px = a / Math_sqrt (pow2 a + pow2 b + pow2 c),
          py = b / Math_sqrt (pow2 a + pow2 b + pow2 c),
          pz = c / Math_sqrt (pow2 a + pow2 b + pow2 c)\<rparr> = \<lparr>px = NaN, py = NaN, pz = NaN\<rparr>"
  using divide_zero_or_NaN [OF assms(1) length_zero_or_NaN [OF assms]]
    divide_zero_or_NaN [OF assms(2) length_zero_or_NaN [OF assms]]
    divide_zero_or_NaN [OF assms(3) length_zero_or_NaN [OF assms]]
  by simp

lemma calculateNormal_first_edge_zero:
  "calculateNormal p p q = \<lparr>px = NaN, py = NaN, pz = NaN\<rparr>"
proof -
  have x: "px p - px p = Fin 0 \<or> px p - px p = NaN"
    and y: "py p - py p = Fin 0 \<or> py p - py p = NaN"
    and z: "pz p - pz p = Fin 0 \<or> pz p - pz p = NaN"
    by (rule minus_self_zero_or_NaN)+
  show ?thesis
    unfolding calculateNormal_def Let_def point.simps
    by (intro normal_of_zero_cross minus_zero_or_NaN times_zero_or_NaN_left x y z)
qed

lemma calculateNormal_edges_equal:
  "calculateNormal p q q = \<lparr>px = NaN, py = NaN, pz = NaN\<rparr>"
  unfolding calculateNormal_def Let_def point.simps
  by (intro normal_of_zero_cross commuted_products_zero_or_NaN)

lemma calculateNormal_zero_cross:
  assumes "(y2 - y1) * (z3 - z1) - (z2 - z1) * (y3 - y1) = 0"
    and "(z2 - z1) * (x3 - x1) - (x2 - x1) * (z3 - z1) = 0"
    and "(x2 - x1) * (y3 - y1) - (y2 - y1) * (x3 - x1) = (0::real)"
  shows "calculateNormal \<lparr>px = Fin x1, py = Fin y1, pz = Fin z1\<rparr> \<lparr>px = Fin x2, py = Fin y2, pz = Fin z2\<rparr>
       \<lparr>px = Fin x3, py = Fin y3, pz = Fin z3\<rparr> = \<lparr>px = NaN, py = NaN, pz = NaN\<rparr>"
  by (simp only: calculateNormal_Fin Let_def assms) simp

lemma foldl_add_cong:
  "\<forall>m \<in> set ms. f m = g m \<Longrightarrow>
   foldl (\<lambda>total m. total + f m) (a::number) ms = foldl (\<lambda>total m. total + g m) a ms"
  by (induction ms arbitrary: a) simp_all

lemma spherePoint_top_pole:
  assumes "\<forall>m \<in> set (modes sd). \<forall>t t'.
      applyDeformation m (Fin t) (Fin 0) (Some \<lparr>px = Fin 0, py = Fin 0, pz = Fin 1\<rparr>)
        = applyDeformation m (Fin t') (Fin 0) (Some \<lparr>px = Fin 0, py = Fin 0, pz = Fin 1\<rparr>)"
  shows "spherePoint sd (Fin t) (Fin 0) = spherePoint sd (Fin t') (Fin 0)"
proof -
  have "foldl (\<lambda>total m. total + applyDeformation m (Fin t) (Fin 0)
            (Some \<lparr>px = Fin 0, py = Fin 0, pz = Fin 1\<rparr>)) (Fin 0) (modes sd)
      = foldl (\<lambda>total m. total + applyDeformation m (Fin t') (Fin 0)
            (Some \<lparr>px = Fin 0, py = Fin 0, pz = Fin 1\<rparr>)) (Fin 0) (modes sd)"
    by (rule foldl_add_cong) (use assms in blast)
  then show ?thesis
    by (simp add: spherePoint_def Let_def)
qed

lemma top_row:
  assumes nT: "1 \<le> nT" and nP: "1 \<le> nP" and i: "i < nat nT"
  shows "createDeformedSphere sd nT nP ! 0 ! i
           = spherePoint sd (Fin (real i * 2 * pi / real_of_int nT)) (Fin 0)"
    and "createDeformedSphere sd nT nP ! 0 ! (i + 1)
           = spherePoint sd (Fin (real (i + 1) * 2 * pi / real_of_int nT)) (Fin 0)"
  using assms by (simp_all add: createDeformedSphere_nth phiAt_Fin thetaAt_Fin)

text \<open>
  C10 as stated fails for the bottom row. In double arithmetic \<open>Math.sin(Math.PI)\<close> is
  \<open>1.2246467991473532e-16\<close> and not 0, so the points of the last row of the mesh differ
  from one another. The mesh below is the one \<open>createDeformedSphere(4, 2)\<close> returns in
  double arithmetic for the base radius 200 and every amplitude 0, each coordinate
  written as the fraction the double is. With \<open>rotX = 100\<close> the second triangle of the
  first quad of its bottom row has a normal with a negative \<open>z\<close>, and the loop body
  pushes both triangles of the quad.
\<close>

theorem bottom_row_triangle_counterexample:
  "pz (calculateNormal
        (rotatePoint \<lparr>px = Fin (7762121250033611 / 2 ^ 99), py = Fin 200, pz = Fin (7762121250033611 / 2 ^ 99)\<rparr> (Fin 100) (Fin 0))
        (rotatePoint \<lparr>px = Fin (133783043088583 / 2 ^ 146), py = Fin (7762121250033611 / 2 ^ 98), pz = Fin (- 200)\<rparr> (Fin 100) (Fin 0))
        (rotatePoint \<lparr>px = Fin (7762121250033611 / 2 ^ 98), py = Fin 0, pz = Fin (- 200)\<rparr> (Fin 100) (Fin 0))) < Fin 0
   \<and> length (draw_quad \<lparr>canvas_width = Fin 800, canvas_height = Fin 600,
        lightDir = \<lparr>px = Fin 0, py = Fin 0, pz = Fin (- 1)\<rparr>,
        shapeDeformer = newShapeDeformer (Fin 200)\<rparr> (Fin 100) (Fin 0) (Fin 0)
      [[\<lparr>px = Fin 0, py = Fin 0, pz = Fin 200\<rparr>,
        \<lparr>px = Fin 0, py = Fin 0, pz = Fin 200\<rparr>,
        \<lparr>px = Fin 0, py = Fin 0, pz = Fin 200\<rparr>,
        \<lparr>px = Fin 0, py = Fin 0, pz = Fin 200\<rparr>,
        \<lparr>px = Fin 0, py = Fin 0, pz = Fin 200\<rparr>],
       [\<lparr>px = Fin 200, py = Fin 0, pz = Fin (7762121250033611 / 2 ^ 99)\<rparr>,
        \<lparr>px = Fin (7762121250033611 / 2 ^ 99), py = Fin 200, pz = Fin (7762121250033611 / 2 ^ 99)\<rparr>,
        \<lparr>px = Fin (- 200), py = Fin (7762121250033611 / 2 ^ 98), pz = Fin (7762121250033611 / 2 ^ 99)\<rparr>,
        \<lparr>px = Fin (- (727698867190651 / 2 ^ 94)), py = Fin (- 200), pz = Fin (7762121250033611 / 2 ^ 99)\<rparr>,
        \<lparr>px = Fin 200, py = Fin (- (7762121250033611 / 2 ^ 97)), pz = Fin (7762121250033611 / 2 ^ 99)\<rparr>],
       [\<lparr>px = Fin (7762121250033611 / 2 ^ 98), py = Fin 0, pz = Fin (- 200)\<rparr>,
        \<lparr>px = Fin (133783043088583 / 2 ^ 146), py = Fin (7762121250033611 / 2 ^ 98), pz = Fin (- 200)\<rparr>,
        \<lparr>px = Fin (- (7762121250033611 / 2 ^ 98)), py = Fin (133783043088583 / 2 ^ 145), pz = Fin (- 200)\<rparr>,
        \<lparr>px = Fin (- (401349129265749 / 2 ^ 146)), py = Fin (- (7762121250033611 / 2 ^ 98)), pz = Fin (- 200)\<rparr>,
        \<lparr>px = Fin (7762121250033611 / 2 ^ 98), py = Fin (- (133783043088583 / 2 ^ 144)), pz = Fin (- 200)\<rparr>]] 1 0 []) = 2"
  by (simp add: draw_quad_explicit Let_def rotatePoint_def calculateNormal_def pow2_def Math_PI_def
      zero_less_divide_iff divide_less_0_iff)

text \<open>
  C10, as amended. A triangle with finite corners whose edge vectors have the cross
  product zero has a normal of length zero; \<open>calculateNormal\<close> divides \<open>0\<close> by \<open>0\<close> and
  returns NaN in every component, as it does for every triangle two of whose corners
  are the same point. A triangle whose normal has a NaN \<open>z\<close> fails the test
  \<open>normal.z < 0\<close>, so the loop body pushes at most the other triangle of its quad and
  \<open>draw\<close> does not fill it; nothing fails on the way. For resolutions of at least 1,
  when what each mode returns at the top pole, where \<open>phi\<close> is 0, does not depend on
  \<open>theta\<close> (as with every amplitude 0), the first triangle of every quad of the top row
  is such a triangle, for every rotation. Nothing is said of the bottom row.
\<close>

theorem degenerate_triangles_culled:
  fixes x1 y1 z1 x2 y2 z2 x3 y3 z3 :: real
  shows
  "((y2 - y1) * (z3 - z1) - (z2 - z1) * (y3 - y1) = 0
      \<and> (z2 - z1) * (x3 - x1) - (x2 - x1) * (z3 - z1) = 0
      \<and> (x2 - x1) * (y3 - y1) - (y2 - y1) * (x3 - x1) = 0 \<longrightarrow>
      calculateNormal \<lparr>px = Fin x1, py = Fin y1, pz = Fin z1\<rparr> \<lparr>px = Fin x2, py = Fin y2, pz = Fin z2\<rparr>
          \<lparr>px = Fin x3, py = Fin y3, pz = Fin z3\<rparr> = \<lparr>px = NaN, py = NaN, pz = NaN\<rparr>)
   \<and> calculateNormal p p q = \<lparr>px = NaN, py = NaN, pz = NaN\<rparr>
   \<and> calculateNormal p q q = \<lparr>px = NaN, py = NaN, pz = NaN\<rparr>
   \<and> (let p1 = rotatePoint (sp ! j ! i) rotX camAngle;
           p2 = rotatePoint (sp ! j ! (i + 1)) rotX camAngle;
           p3 = rotatePoint (sp ! (j + 1) ! i) rotX camAngle;
           p4 = rotatePoint (sp ! (j + 1) ! (i + 1)) rotX camAngle;
           normal1 = calculateNormal p1 p2 p3;
           normal2 = calculateNormal p2 p4 p3
       in (pz normal1 = NaN \<longrightarrow>
             draw_quad r rotX camAngle depth sp j i ts =
               ts @ (if pz normal2 < Fin 0
                     then [\<lparr>points = [projectPoint r p2 depth, projectPoint r p4 depth,
                                      projectPoint r p3 depth],
                            color = calculateLighting r normal2,
                            avgZ = (pz p2 + pz p3 + pz p4) / Fin 3\<rparr>]
                     else []))
        \<and> (pz normal2 = NaN \<longrightarrow>
             draw_quad r rotX camAngle depth sp j i ts =
               ts @ (if pz normal1 < Fin 0
                     then [\<lparr>points = [projectPoint r p1 depth, projectPoint r p2 depth,
                                      projectPoint r p3 depth],
                            color = calculateLighting r normal1,
                            avgZ = (pz p1 + pz p2 + pz p3) / Fin 3\<rparr>]
                     else [])))
   \<and> (1 \<le> numPointsTheta \<and> 1 \<le> numPointsPhi
       \<and> (\<forall>m \<in> set (modes (shapeDeformer r)). \<forall>t t'.
             applyDeformation m (Fin t) (Fin 0) (Some \<lparr>px = Fin 0, py = Fin 0, pz = Fin 1\<rparr>)
               = applyDeformation m (Fin t') (Fin 0) (Some \<lparr>px = Fin 0, py = Fin 0, pz = Fin 1\<rparr>))
       \<longrightarrow>
       (\<forall>k < nat numPointsTheta.
          let mesh = createDeformedSphere (shapeDeformer r) numPointsTheta numPointsPhi
          in calculateNormal (rotatePoint (mesh ! 0 ! k) rotX camAngle)
                 (rotatePoint (mesh ! 0 ! (k + 1)) rotX camAngle)
                 (rotatePoint (mesh ! (0 + 1) ! k) rotX camAngle)
               = \<lparr>px = NaN, py = NaN, pz = NaN\<rparr>))"
proof (intro conjI)
  show "(y2 - y1) * (z3 - z1) - (z2 - z1) * (y3 - y1) = 0
      \<and> (z2 - z1) * (x3 - x1) - (x2 - x1) * (z3 - z1) = 0
      \<and> (x2 - x1) * (y3 - y1) - (y2 - y1) * (x3 - x1) = 0 \<longrightarrow>
      calculateNormal \<lparr>px = Fin x1, py = Fin y1, pz = Fin z1\<rparr> \<lparr>px = Fin x2, py = Fin y2, pz = Fin z2\<rparr>
          \<lparr>px = Fin x3, py = Fin y3, pz = Fin z3\<rparr> = \<lparr>px = NaN, py = NaN, pz = NaN\<rparr>"
    using calculateNormal_zero_cross by blast
next
  show "calculateNormal p p q = \<lparr>px = NaN, py = NaN, pz = NaN\<rparr>"
    by (rule calculateNormal_first_edge_zero)
next
  show "calculateNormal p q q = \<lparr>px = NaN, py = NaN, pz = NaN\<rparr>"
    by (rule calculateNormal_edges_equal)
next
  show "let p1 = rotatePoint (sp ! j ! i) rotX camAngle;
           p2 = rotatePoint (sp ! j ! (i + 1)) rotX camAngle;
           p3 = rotatePoint (sp ! (j + 1) ! i) rotX camAngle;
           p4 = rotatePoint (sp ! (j + 1) ! (i + 1)) rotX camAngle;
           normal1 = calculateNormal p1 p2 p3;
           normal2 = calculateNormal p2 p4 p3
       in (pz normal1 = NaN \<longrightarrow>
             draw_quad r rotX camAngle depth sp j i ts =
               ts @ (if pz normal2 < Fin 0
                     then [\<lparr>points = [projectPoint r p2 depth, projectPoint r p4 depth,
                                      projectPoint r p3 depth],
                            color = calculateLighting r normal2,
                            avgZ = (pz p2 + pz p3 + pz p4) / Fin 3\<rparr>]
                     else []))
        \<and> (pz normal2 = NaN \<longrightarrow>
             draw_quad r rotX camAngle depth sp j i ts =
               ts @ (if pz normal1 < Fin 0
                     then [\<lparr>points = [projectPoint r p1 depth, projectPoint r p2 depth,
                                      projectPoint r p3 depth],
                            color = calculateLighting r normal1,
                            avgZ = (pz p1 + pz p2 + pz p3) / Fin 3\<rparr>]
                     else []))"
    by (simp add: draw_quad_explicit Let_def)
next
  show "1 \<le> numPointsTheta \<and> 1 \<le> numPointsPhi
       \<and> (\<forall>m \<in> set (modes (shapeDeformer r)). \<forall>t t'.
             applyDeformation m (Fin t) (Fin 0) (Some \<lparr>px = Fin 0, py = Fin 0, pz = Fin 1\<rparr>)
               = applyDeformation m (Fin t') (Fin 0) (Some \<lparr>px = Fin 0, py = Fin 0, pz = Fin 1\<rparr>))
       \<longrightarrow>
       (\<forall>k < nat numPointsTheta.
          let mesh = createDeformedSphere (shapeDeformer r) numPointsTheta numPointsPhi
          in calculateNormal (rotatePoint (mesh ! 0 ! k) rotX camAngle)
                 (rotatePoint (mesh ! 0 ! (k + 1)) rotX camAngle)
                 (rotatePoint (mesh ! (0 + 1) ! k) rotX camAngle)
               = \<lparr>px = NaN, py = NaN, pz = NaN\<rparr>)"
  proof (intro impI allI, elim conjE)
    fix k
    assume nT: "1 \<le> numPointsTheta" and nP: "1 \<le> numPointsPhi"
      and k: "k < nat numPointsTheta"
      and h: "\<forall>m \<in> set (modes (shapeDeformer r)). \<forall>t t'.
             applyDeformation m (Fin t) (Fin 0) (Some \<lparr>px = Fin 0, py = Fin 0, pz = Fin 1\<rparr>)
               = applyDeformation m (Fin t') (Fin 0) (Some \<lparr>px = Fin 0, py = Fin 0, pz = Fin 1\<rparr>)"
    let ?mesh = "createDeformedSphere (shapeDeformer r) numPointsTheta numPointsPhi"
    have top: "?mesh ! 0 ! k = ?mesh ! 0 ! (k + 1)"
      unfolding top_row [OF nT nP k]
      by (rule spherePoint_top_pole) (use h in blast)
    show "let mesh = ?mesh
          in calculateNormal (rotatePoint (mesh ! 0 ! k) rotX camAngle)
                 (rotatePoint (mesh ! 0 ! (k + 1)) rotX camAngle)
                 (rotatePoint (mesh ! (0 + 1) ! k) rotX camAngle)
               = \<lparr>px = NaN, py = NaN, pz = NaN\<rparr>"
      unfolding Let_def top
      by (simp only: calculateNormal_first_edge_zero)
  qed
qed

theorem degenerate_triangles_culled_witness:
  "calculateNormal \<lparr>px = Fin 0, py = Fin 0, pz = Fin 0\<rparr> \<lparr>px = Fin 1, py = Fin 1, pz = Fin 1\<rparr>
      \<lparr>px = Fin 2, py = Fin 2, pz = Fin 2\<rparr> = \<lparr>px = NaN, py = NaN, pz = NaN\<rparr>
   \<and> draw_quad \<lparr>canvas_width = Fin 800, canvas_height = Fin 600,
        lightDir = \<lparr>px = Fin 0, py = Fin 0, pz = Fin (- 1)\<rparr>,
        shapeDeformer = newShapeDeformer (Fin 200)\<rparr> (Fin 0) (Fin 0) (Fin 0)
      [[\<lparr>px = Fin 0, py = Fin 0, pz = Fin 0\<rparr>, \<lparr>px = Fin 0, py = Fin 0, pz = Fin 0\<rparr>],
       [\<lparr>px = Fin 1, py = Fin 0, pz = Fin 0\<rparr>, \<lparr>px = Fin 1, py = Fin 1, pz = Fin 0\<rparr>]] 0 0 []
     = [\<lparr>points = [\<lparr>px = Fin 400, py = Fin 300, pz = Fin 0\<rparr>,
                    \<lparr>px = Fin 401, py = Fin 301, pz = Fin 0\<rparr>,
                    \<lparr>px = Fin 401, py = Fin 300, pz = Fin 0\<rparr>],
         color = \<lparr>red = Fin 40, green = Fin 120, blue = Fin 255\<rparr>, avgZ = Fin 0\<rparr>]
   \<and> calculateNormal
        (rotatePoint (createDeformedSphere (newShapeDeformer (Fin 200)) 4 2 ! 0 ! 1) (Fin 30) (Fin 10))
        (rotatePoint (createDeformedSphere (newShapeDeformer (Fin 200)) 4 2 ! 0 ! 2) (Fin 30) (Fin 10))
        (rotatePoint (createDeformedSphere (newShapeDeformer (Fin 200)) 4 2 ! 1 ! 1) (Fin 30) (Fin 10))
      = \<lparr>px = NaN, py = NaN, pz = NaN\<rparr>"
proof -
  let ?r = "\<lparr>canvas_width = Fin 800, canvas_height = Fin 600,
        lightDir = \<lparr>px = Fin 0, py = Fin 0, pz = Fin (- 1)\<rparr>,
        shapeDeformer = newShapeDeformer (Fin 200)\<rparr>"
  let ?sp = "[[\<lparr>px = Fin 0, py = Fin 0, pz = Fin 0\<rparr>, \<lparr>px = Fin 0, py = Fin 0, pz = Fin 0\<rparr>],
       [\<lparr>px = Fin 1, py = Fin 0, pz = Fin 0\<rparr>, \<lparr>px = Fin 1, py = Fin 1, pz = Fin 0\<rparr>]]"
  note inst = degenerate_triangles_culled [where r = ?r and rotX = "Fin 0" and camAngle = "Fin 0"
      and depth = "Fin 0" and sp = ?sp and j = 0 and i = 0 and ts = "[]"
      and ?x1.0 = 0 and ?y1.0 = 0 and ?z1.0 = 0 and ?x2.0 = 1 and ?y2.0 = 1 and ?z2.0 = 1
      and ?x3.0 = 2 and ?y3.0 = 2 and ?z3.0 = 2]
  have a: "calculateNormal \<lparr>px = Fin 0, py = Fin 0, pz = Fin 0\<rparr> \<lparr>px = Fin 1, py = Fin 1, pz = Fin 1\<rparr>
      \<lparr>px = Fin 2, py = Fin 2, pz = Fin 2\<rparr> = \<lparr>px = NaN, py = NaN, pz = NaN\<rparr>"
    using conjunct1 [OF inst] by simp
  have b: "draw_quad ?r (Fin 0) (Fin 0) (Fin 0) ?sp 0 0 []
     = [\<lparr>points = [\<lparr>px = Fin 400, py = Fin 300, pz = Fin 0\<rparr>,
                    \<lparr>px = Fin 401, py = Fin 301, pz = Fin 0\<rparr>,
                    \<lparr>px = Fin 401, py = Fin 300, pz = Fin 0\<rparr>],
         color = \<lparr>red = Fin 40, green = Fin 120, blue = Fin 255\<rparr>, avgZ = Fin 0\<rparr>]"
    using conjunct1 [OF conjunct2 [OF conjunct2 [OF conjunct2 [OF inst]]]]
    by (simp add: Let_def rotatePoint_def projectPoint_def calculateNormal_def calculateLighting_def
        pow2_def Math_PI_def)
  have m: "\<forall>m \<in> set (modes (newShapeDeformer (Fin 200))). amplitude m = Fin 0 \<and> finiteMode m"
    by (simp add: newShapeDeformer_modes newMode_def finiteMode_def)
  have h: "\<forall>m \<in> set (modes (shapeDeformer ?r)). \<forall>t t'.
             applyDeformation m (Fin t) (Fin 0) (Some \<lparr>px = Fin 0, py = Fin 0, pz = Fin 1\<rparr>)
               = applyDeformation m (Fin t') (Fin 0) (Some \<lparr>px = Fin 0, py = Fin 0, pz = Fin 1\<rparr>)"
    using m by (simp add: applyDeformation_zero_amplitude)
  have c: "\<forall>k < nat 4.
          let mesh = createDeformedSphere (shapeDeformer ?r) 4 2
          in calculateNormal (rotatePoint (mesh ! 0 ! k) (Fin 30) (Fin 10))
                 (rotatePoint (mesh ! 0 ! (k + 1)) (Fin 30) (Fin 10))
                 (rotatePoint (mesh ! (0 + 1) ! k) (Fin 30) (Fin 10))
               = \<lparr>px = NaN, py = NaN, pz = NaN\<rparr>"
    using conjunct2 [OF conjunct2 [OF conjunct2 [OF conjunct2 [OF degenerate_triangles_culled
        [where r = ?r and rotX = "Fin 30" and camAngle = "Fin 10" and numPointsTheta = 4
          and numPointsPhi = 2]]]]] h
    by simp
  have d: "calculateNormal
        (rotatePoint (createDeformedSphere (newShapeDeformer (Fin 200)) 4 2 ! 0 ! 1) (Fin 30) (Fin 10))
        (rotatePoint (createDeformedSphere (newShapeDeformer (Fin 200)) 4 2 ! 0 ! 2) (Fin 30) (Fin 10))
        (rotatePoint (createDeformedSphere (newShapeDeformer (Fin 200)) 4 2 ! 1 ! 1) (Fin 30) (Fin 10))
      = \<lparr>px = NaN, py = NaN, pz = NaN\<rparr>"
    using spec [OF c, of 1] by (simp add: Let_def numeral_2_eq_2)
  show ?thesis
    using a b d by blast
qed

end
